theory Spec2Isabelle
  imports Complex_Main "HOL-Library.AList"
begin

section \<open>JavaScript strings\<close>

text \<open>
  A JavaScript string is a sequence of UTF-16 code units. The regular expressions and
  \<open>trim\<close> of the sources look at code units beyond Latin-1 (\<open>\s\<close> matches U+2028,
  U+FEFF, ...), so a string is modelled as the list of its code units, each a natural
  number. \<open>js\<close> turns a Basic Latin literal into such a list.
\<close>

type_synonym jsstring = "nat list"

definition js :: "string \<Rightarrow> jsstring" where
  "js s = map of_char s"

text \<open>
  White space as ECMAScript defines it for \<open>String.prototype.trim\<close> and for the
  class \<open>\s\<close>: TAB, LF, VT, FF, CR, SP, NBSP, U+1680, U+2000..U+200A, U+2028, U+2029,
  U+202F, U+205F, U+3000 and U+FEFF.
\<close>

definition is_ws :: "nat \<Rightarrow> bool" where
  "is_ws c = (c = 9 \<or> c = 10 \<or> c = 11 \<or> c = 12 \<or> c = 13 \<or> c = 32 \<or> c = 160 \<or> c = 5760
     \<or> (8192 \<le> c \<and> c \<le> 8202) \<or> c = 8232 \<or> c = 8233 \<or> c = 8239 \<or> c = 8287
     \<or> c = 12288 \<or> c = 65279)"

text \<open>\<open>s.trim()\<close>: white space removed at both ends.\<close>

definition trim :: "jsstring \<Rightarrow> jsstring" where
  "trim s = rev (dropWhile is_ws (rev (dropWhile is_ws s)))"

text \<open>
  \<open>s.substring(a, b)\<close>: both arguments are clamped to \<open>[0, length]\<close> and swapped when
  the first exceeds the second.
\<close>

definition clamp_index :: "jsstring \<Rightarrow> int \<Rightarrow> nat" where
  "clamp_index s i = (if i < 0 then 0 else min (nat i) (length s))"

definition substring :: "jsstring \<Rightarrow> int \<Rightarrow> int \<Rightarrow> jsstring" where
  "substring s a b =
     (let lo = min (clamp_index s a) (clamp_index s b);
          hi = max (clamp_index s a) (clamp_index s b)
      in take (hi - lo) (drop lo s))"

section \<open>Chunker (utils/chunker.js)\<close>

text \<open>A chunk as \<open>createChunks\<close> pushes it; \<open>endpos\<close> is the field \<open>end\<close>.\<close>

record chunk =
  content :: jsstring
  start :: int
  endpos :: int
  index :: nat

text \<open>
  The \<open>while (start < text.length)\<close> loop of \<open>createChunks\<close>, with its three mutable
  variables \<open>chunks\<close>, \<open>start\<close> and \<open>chunkIndex\<close> as arguments. The loop need not
  terminate (with \<open>overlap \<ge> chunkSize\<close> the offset never advances), so the result is an
  option and \<open>None\<close> stands for a loop that runs forever. The \<open>break\<close> is taken when
  \<open>chunks.length > 1000\<close> after the push.
\<close>

partial_function (option) chunk_loop ::
  "jsstring \<Rightarrow> int \<Rightarrow> int \<Rightarrow> chunk list \<Rightarrow> int \<Rightarrow> nat \<Rightarrow> chunk list option" where
  "chunk_loop text chunkSize overlap chunks st chunkIndex =
     (if st < int (length text) then
        (let en = min (st + chunkSize) (int (length text));
             cont = trim (substring text st en);
             pushed = (10 < length cont);
             chunks' = (if pushed
                        then chunks @ [\<lparr>content = cont, start = st, endpos = en, index = chunkIndex\<rparr>]
                        else chunks);
             chunkIndex' = (if pushed then chunkIndex + 1 else chunkIndex);
             st' = st + (chunkSize - overlap)
         in if 1000 < length chunks' then Some chunks'
            else chunk_loop text chunkSize overlap chunks' st' chunkIndex')
      else Some chunks)"

declare chunk_loop.simps [code]

text \<open>
  \<open>createChunks(text, chunkSize, overlap)\<close>: an empty text gives no chunk, a text of more
  than 1000000 code units is cut to its first 1000000, and the loop starts at offset 0.
\<close>

definition createChunks :: "jsstring \<Rightarrow> int \<Rightarrow> int \<Rightarrow> chunk list option" where
  "createChunks text chunkSize overlap =
     (if text = [] then Some []
      else (let text' = (if 1000000 < length text then substring text 0 1000000 else text)
            in chunk_loop text' chunkSize overlap [] 0 0))"

section \<open>Knowledge graph builder (services/memoryGraph.js)\<close>

subsection \<open>Strings and thrown values\<close>

text \<open>
  \<open>toLowerCase\<close> on the Basic Latin letters; code units outside \<open>A..Z\<close> are left as
  they are (the Unicode case tables beyond Basic Latin are not modelled; every string of
  the scenarios below is Basic Latin).
\<close>

definition lower_unit :: "nat \<Rightarrow> nat" where
  "lower_unit c = (if 65 \<le> c \<and> c \<le> 90 then c + 32 else c)"

definition toLowerCase :: "jsstring \<Rightarrow> jsstring" where
  "toLowerCase s = map lower_unit s"

text \<open>\<open>s.includes(sub)\<close>: \<open>sub\<close> occurs in \<open>s\<close> as a contiguous run.\<close>

fun includes_str :: "jsstring \<Rightarrow> jsstring \<Rightarrow> bool" where
  "includes_str [] sub = (sub = [])"
| "includes_str (x # xs) sub = (take (length sub) (x # xs) = sub \<or> includes_str xs sub)"

text \<open>A thrown \<open>Error\<close>; the handlers of the sources read its \<open>message\<close> only.\<close>

datatype js_exn = JsError (message: jsstring)

subsection \<open>Stage 1: entity extraction and merging\<close>

text \<open>An entity as the text-understanding collaborator returns it; relevance is a JSON
  number, modelled as a rational.\<close>

record entity =
  ent_name :: jsstring
  ent_type :: jsstring
  ent_relevance :: rat

text \<open>\<open>Set.prototype.add\<close> on a set kept in insertion order.\<close>

definition set_add :: "'a \<Rightarrow> 'a list \<Rightarrow> 'a list" where
  "set_add x xs = (if x \<in> set xs then xs else xs @ [x])"

text \<open>A value of \<open>allEntitiesMap\<close>; \<open>m_sources\<close> is the \<open>Set\<close> of chunk indices in
  insertion order.\<close>

record merged =
  m_name :: jsstring
  m_type :: jsstring
  m_relevance :: rat
  m_count :: nat
  m_sources :: "nat list"
  m_first_seen_chunk :: nat
  m_last_seen_chunk :: nat

definition minEntityRelevance :: rat where
  "minEntityRelevance = 5"

definition minCooccurrence :: nat where
  "minCooccurrence = 2"

text \<open>The key \<open>`${entity.name.toLowerCase()}_${entity.type}`\<close>.\<close>

definition entityKey :: "entity \<Rightarrow> jsstring" where
  "entityKey e = toLowerCase (ent_name e) @ js ''_'' @ ent_type e"

text \<open>
  The body of \<open>entities.forEach\<close>. The \<open>Map\<close> keeps insertion order and is an
  association list; \<open>AList.update\<close> replaces the value of a present key in place and
  appends an absent one, as \<open>Map.prototype.set\<close> does.
\<close>

definition mergeEntity :: "nat \<Rightarrow> entity \<Rightarrow> (jsstring \<times> merged) list \<Rightarrow> (jsstring \<times> merged) list" where
  "mergeEntity chunkIndex e m =
     (if minEntityRelevance \<le> ent_relevance e then
        (case map_of m (entityKey e) of
           Some existing \<Rightarrow>
             AList.update (entityKey e)
               (existing\<lparr>m_count := m_count existing + 1,
                  m_relevance := (m_relevance existing + ent_relevance e) / 2,
                  m_sources := set_add chunkIndex (m_sources existing)\<rparr>) m
         | None \<Rightarrow>
             AList.update (entityKey e)
               \<lparr>m_name = ent_name e, m_type = ent_type e, m_relevance = ent_relevance e,
                m_count = 1, m_sources = [chunkIndex],
                m_first_seen_chunk = chunkIndex, m_last_seen_chunk = chunkIndex\<rparr> m)
      else m)"

text \<open>
  One batch of at most five chunks. The five extraction calls run concurrently; each
  continuation (the \<open>forEach\<close> over the entities of one chunk) runs to its end when its
  call resolves, so the chunks of a batch are merged one after the other in the order
  \<open>ord\<close> in which the calls resolve, a permutation of the positions of the batch.
  \<open>ai chunkIndex content\<close> is the result of \<open>aiService.extractEntities\<close> for that chunk;
  \<open>Inl\<close> is a call whose result cannot be iterated, which the handler of the chunk logs
  and drops.
\<close>

definition processBatch ::
  "(nat \<Rightarrow> jsstring \<Rightarrow> js_exn + entity list) \<Rightarrow> nat \<Rightarrow> chunk list \<Rightarrow> nat list
     \<Rightarrow> (jsstring \<times> merged) list \<Rightarrow> (jsstring \<times> merged) list" where
  "processBatch ai i batch ord m =
     fold (\<lambda>pos acc.
        if pos < length batch then
          (case ai (i + pos) (content (batch ! pos)) of
             Inr entities \<Rightarrow> fold (mergeEntity (i + pos)) entities acc
           | Inl err \<Rightarrow> acc)
        else acc) ord m"

text \<open>The loop \<open>for (let i = 0; i < chunks.length; i += batchSize)\<close>; \<open>sched i\<close> is the order
  in which the calls of the batch starting at \<open>i\<close> resolve.\<close>

function extractLoop ::
  "(nat \<Rightarrow> jsstring \<Rightarrow> js_exn + entity list) \<Rightarrow> (nat \<Rightarrow> nat list) \<Rightarrow> chunk list \<Rightarrow> nat
     \<Rightarrow> (jsstring \<times> merged) list \<Rightarrow> (jsstring \<times> merged) list" where
  "extractLoop ai sched chunks i m =
     (if i < length chunks
      then extractLoop ai sched chunks (i + 5)
             (processBatch ai i (take 5 (drop i chunks)) (sched i) m)
      else m)"
  by pat_completeness auto
termination
  by (relation "measure (\<lambda>(ai, sched, chunks, i, m). length chunks - i)") auto

definition extractEntitiesMap ::
  "(nat \<Rightarrow> jsstring \<Rightarrow> js_exn + entity list) \<Rightarrow> (nat \<Rightarrow> nat list) \<Rightarrow> chunk list
     \<Rightarrow> (jsstring \<times> merged) list" where
  "extractEntitiesMap ai sched chunks = extractLoop ai sched chunks 0 []"

text \<open>\<open>extractEntitiesFromChunks\<close>: the values of the map, sorted by descending relevance
  (the sort is stable) and cut to the first 50.\<close>

definition extractEntitiesFromChunks ::
  "(nat \<Rightarrow> jsstring \<Rightarrow> js_exn + entity list) \<Rightarrow> (nat \<Rightarrow> nat list) \<Rightarrow> chunk list \<Rightarrow> merged list" where
  "extractEntitiesFromChunks ai sched chunks =
     take 50 (sort_key (\<lambda>e. - m_relevance e) (map snd (extractEntitiesMap ai sched chunks)))"

subsection \<open>Stage 2: node creation\<close>

text \<open>
  A node as \<open>createGraphNodes\<close> pushes it: the stored row's \<open>id\<close>, the \<open>nodeData\<close> sent to
  the store and the two visualisation hints. Identifiers are kept as the strings that the
  template literals of the edge keys print.
\<close>

record node =
  n_id :: jsstring
  n_document_id :: jsstring
  n_name :: jsstring
  n_type :: jsstring
  n_relevance :: rat
  n_occurrence_count :: nat
  n_source_chunks :: "nat list"
  n_first_seen_chunk :: nat
  n_last_seen_chunk :: nat
  n_size :: rat
  n_color :: jsstring

definition getNodeColor :: "jsstring \<Rightarrow> jsstring" where
  "getNodeColor t =
     (case map_of
        [(js ''person'', js ''#2196F3''), (js ''organization'', js ''#4CAF50''),
         (js ''concept'', js ''#FF9800''), (js ''topic'', js ''#9C27B0''),
         (js ''location'', js ''#F44336''), (js ''default'', js ''#607D8B'')]
        (toLowerCase t) of
      Some c \<Rightarrow> c | None \<Rightarrow> js ''#607D8B'')"

text \<open>
  The graph store is a collaborator with a state of its own: \<open>createGraphNode\<close> and
  \<open>createGraphEdge\<close> take the state, and give the new state and either a thrown error,
  no row (\<open>None\<close>) or the \<open>id\<close> of the inserted row.
\<close>

record 'db store =
  createGraphNode :: "'db \<Rightarrow> node \<Rightarrow> (js_exn + jsstring option) \<times> 'db"
  createGraphEdge ::
    "'db \<Rightarrow> jsstring \<times> jsstring \<times> jsstring \<times> rat \<Rightarrow> (js_exn + jsstring option) \<times> 'db"

text \<open>\<open>createGraphNodes\<close>: one insert per entity, in order; an entity whose insert throws
  or returns no row is skipped.\<close>

fun createGraphNodes :: "'db store \<Rightarrow> 'db \<Rightarrow> merged list \<Rightarrow> jsstring \<Rightarrow> node list \<times> 'db" where
  "createGraphNodes st db [] documentId = ([], db)"
| "createGraphNodes st db (e # es) documentId =
     (let nodeData = \<lparr>n_id = [], n_document_id = documentId, n_name = m_name e,
            n_type = m_type e, n_relevance = m_relevance e, n_occurrence_count = m_count e,
            n_source_chunks = m_sources e, n_first_seen_chunk = m_first_seen_chunk e,
            n_last_seen_chunk = m_last_seen_chunk e,
            n_size = min (10 + m_relevance e * 2) 30, n_color = getNodeColor (m_type e)\<rparr>;
          (res, db') = createGraphNode st db nodeData;
          (rest, db'') = createGraphNodes st db' es documentId
      in case res of
           Inr (Some rid) \<Rightarrow> (nodeData\<lparr>n_id := rid\<rparr> # rest, db'')
         | _ \<Rightarrow> (rest, db''))"

subsection \<open>Stage 3: co-occurrence analysis\<close>

text \<open>A value of \<open>cooccurrenceMap\<close>.\<close>

record cooccurrence =
  co_source :: jsstring
  co_target :: jsstring
  co_weight :: nat
  co_chunks :: "nat list"

text \<open>An edge as \<open>analyzeRelationships\<close> and \<open>createSemanticRelationships\<close> push it.\<close>

record edge =
  e_id :: jsstring
  e_source :: jsstring
  e_target :: jsstring
  e_relationship :: jsstring
  e_weight :: rat
  e_width :: rat
  e_color :: jsstring
  e_ai_generated :: bool

text \<open>The nodes whose lower-cased name occurs in the lower-cased content of the chunk.\<close>

definition chunkEntities :: "node list \<Rightarrow> chunk \<Rightarrow> node list" where
  "chunkEntities nodes c =
     filter (\<lambda>n. includes_str (toLowerCase (content c)) (toLowerCase (n_name n))) nodes"

text \<open>The pairs \<open>(chunkEntities[i], chunkEntities[j])\<close> with \<open>i < j\<close>, in the order of the
  two nested loops.\<close>

fun pairs :: "'a list \<Rightarrow> ('a \<times> 'a) list" where
  "pairs [] = []"
| "pairs (x # xs) = map (Pair x) xs @ pairs xs"

definition edgeKey :: "jsstring \<Rightarrow> jsstring \<Rightarrow> jsstring" where
  "edgeKey a b = a @ js ''-'' @ b"

text \<open>The body of the inner loop: a new counter under \<open>edgeKey\<close> when neither orientation
  is present, otherwise the present one is incremented.\<close>

definition countPair ::
  "nat \<Rightarrow> node \<times> node \<Rightarrow> (jsstring \<times> cooccurrence) list \<Rightarrow> (jsstring \<times> cooccurrence) list" where
  "countPair chunkIndex p m =
     (let entity1 = fst p; entity2 = snd p;
          key = edgeKey (n_id entity1) (n_id entity2);
          reverseKey = edgeKey (n_id entity2) (n_id entity1)
      in if map_of m key = None \<and> map_of m reverseKey = None
         then AList.update key
                \<lparr>co_source = n_id entity1, co_target = n_id entity2, co_weight = 1,
                 co_chunks = [chunkIndex]\<rparr> m
         else (let existingKey = (if map_of m key \<noteq> None then key else reverseKey)
               in case map_of m existingKey of
                    Some e \<Rightarrow>
                      AList.update existingKey
                        (e\<lparr>co_weight := co_weight e + 1,
                           co_chunks := co_chunks e @ [chunkIndex]\<rparr>) m
                  | None \<Rightarrow> m))"

text \<open>The loop over the chunks, from chunk index \<open>chunkIndex\<close> on.\<close>

fun countChunks ::
  "node list \<Rightarrow> nat \<Rightarrow> chunk list \<Rightarrow> (jsstring \<times> cooccurrence) list
     \<Rightarrow> (jsstring \<times> cooccurrence) list" where
  "countChunks nodes chunkIndex [] m = m"
| "countChunks nodes chunkIndex (c # cs) m =
     countChunks nodes (chunkIndex + 1) cs
       (fold (countPair chunkIndex) (pairs (chunkEntities nodes c)) m)"

definition validEdges :: "node list \<Rightarrow> chunk list \<Rightarrow> cooccurrence list" where
  "validEdges nodes chunks =
     filter (\<lambda>e. minCooccurrence \<le> co_weight e) (map snd (countChunks nodes 0 chunks []))"

definition determineRelationship :: "node \<Rightarrow> node \<Rightarrow> jsstring" where
  "determineRelationship node1 node2 =
     (let type1 = toLowerCase (n_type node1); type2 = toLowerCase (n_type node2);
          relationships =
            [(js ''person-person'', js ''collaborates_with''),
             (js ''person-organization'', js ''works_at''),
             (js ''organization-organization'', js ''partners_with''),
             (js ''concept-concept'', js ''related_to''),
             (js ''concept-topic'', js ''belongs_to''),
             (js ''topic-topic'', js ''connected_to''),
             (js ''location-organization'', js ''located_in''),
             (js ''person-concept'', js ''researches''),
             (js ''default'', js ''associated_with'')]
      in case map_of relationships (type1 @ js ''-'' @ type2) of
           Some r \<Rightarrow> r
         | None \<Rightarrow>
             (case map_of relationships (type2 @ js ''-'' @ type1) of
                Some r \<Rightarrow> r | None \<Rightarrow> js ''associated_with''))"

definition getEdgeColor :: "jsstring \<Rightarrow> jsstring" where
  "getEdgeColor relationship =
     (case map_of
        [(js ''collaborates_with'', js ''#2196F3''), (js ''works_at'', js ''#4CAF50''),
         (js ''partners_with'', js ''#8BC34A''), (js ''related_to'', js ''#FF9800''),
         (js ''belongs_to'', js ''#9C27B0''), (js ''connected_to'', js ''#E91E63''),
         (js ''located_in'', js ''#F44336''), (js ''researches'', js ''#00BCD4''),
         (js ''associated_with'', js ''#795548''), (js ''default'', js ''#9E9E9E'')]
        relationship of
      Some c \<Rightarrow> c | None \<Rightarrow> js ''#9E9E9E'')"

text \<open>
  The loop that stores the retained pairs. \<open>nodes.find\<close> returns no node for an unknown
  identifier, on which \<open>determineRelationship\<close> throws and the pair is skipped, as it is
  when the insert throws or returns no row.
\<close>

fun persistEdges ::
  "'db store \<Rightarrow> 'db \<Rightarrow> node list \<Rightarrow> cooccurrence list \<Rightarrow> edge list \<times> 'db" where
  "persistEdges st db nodes [] = ([], db)"
| "persistEdges st db nodes (d # ds) =
     (case (find (\<lambda>n. n_id n = co_source d) nodes, find (\<lambda>n. n_id n = co_target d) nodes) of
        (Some node1, Some node2) \<Rightarrow>
          (let relationship = determineRelationship node1 node2;
               (res, db') = createGraphEdge st db
                  (co_source d, co_target d, relationship, of_nat (co_weight d));
               (rest, db'') = persistEdges st db' nodes ds
           in case res of
                Inr (Some rid) \<Rightarrow>
                  (\<lparr>e_id = rid, e_source = co_source d, e_target = co_target d,
                    e_relationship = relationship, e_weight = of_nat (co_weight d),
                    e_width = min (of_nat (co_weight d) * (1 / 2)) 5,
                    e_color = getEdgeColor relationship, e_ai_generated = False\<rparr> # rest, db'')
              | _ \<Rightarrow> (rest, db''))
      | _ \<Rightarrow> persistEdges st db nodes ds)"

subsection \<open>Stage 4: semantic fallback\<close>

text \<open>A relationship as the language model proposes it.\<close>

record proposal =
  entity1 :: jsstring
  entity2 :: jsstring
  relationship :: jsstring
  confidence :: rat

text \<open>The loop over the proposals: an edge for each proposal whose two names are names of
  selected nodes with different identifiers and whose insert returns a row.\<close>

fun proposedEdges ::
  "'db store \<Rightarrow> 'db \<Rightarrow> node list \<Rightarrow> proposal list \<Rightarrow> edge list \<times> 'db" where
  "proposedEdges st db topNodes [] = ([], db)"
| "proposedEdges st db topNodes (rel # rels) =
     (case (find (\<lambda>n. n_name n = entity1 rel) topNodes,
            find (\<lambda>n. n_name n = entity2 rel) topNodes) of
        (Some node1, Some node2) \<Rightarrow>
          (if n_id node1 \<noteq> n_id node2 then
             (let (res, db') = createGraphEdge st db
                    (n_id node1, n_id node2, relationship rel, confidence rel / 10);
                  (rest, db'') = proposedEdges st db' topNodes rels
              in case res of
                   Inr (Some rid) \<Rightarrow>
                     (\<lparr>e_id = rid, e_source = n_id node1, e_target = n_id node2,
                       e_relationship = relationship rel, e_weight = confidence rel / 10,
                       e_width = min (confidence rel / 10 * 3) 4,
                       e_color = js ''#9C27B0'', e_ai_generated = True\<rparr> # rest, db'')
                 | _ \<Rightarrow> (rest, db''))
           else proposedEdges st db topNodes rels)
      | _ \<Rightarrow> proposedEdges st db topNodes rels)"

text \<open>
  \<open>createSemanticRelationships\<close>. \<open>llm topNodes\<close> stands for the prompt built from the
  selected nodes, the \<open>chatCompletion\<close> call and \<open>JSON.parse\<close> of its answer: \<open>Inl\<close> when
  the call throws or the answer is not a JSON array, which leaves no edge.
\<close>

definition createSemanticRelationships ::
  "'db store \<Rightarrow> (node list \<Rightarrow> js_exn + proposal list) \<Rightarrow> 'db \<Rightarrow> node list \<Rightarrow> edge list \<times> 'db" where
  "createSemanticRelationships st llm db nodes =
     (let topNodes = take (min 10 (length nodes)) nodes
      in if length topNodes < 2 then ([], db)
         else (case llm topNodes of
                 Inr aiRelationships \<Rightarrow> proposedEdges st db topNodes aiRelationships
               | Inl err \<Rightarrow> ([], db)))"

text \<open>\<open>analyzeRelationships\<close>: the stored co-occurrence edges, followed by the semantic
  edges when fewer than 5 edges were stored and there are at least 2 nodes.\<close>

definition analyzeRelationships ::
  "'db store \<Rightarrow> (node list \<Rightarrow> js_exn + proposal list) \<Rightarrow> 'db \<Rightarrow> chunk list \<Rightarrow> node list
     \<Rightarrow> edge list \<times> 'db" where
  "analyzeRelationships st llm db chunks nodes =
     (let (edges, db') = persistEdges st db nodes (validEdges nodes chunks)
      in if length edges < 5 \<and> 2 \<le> length nodes
         then (let (semanticEdges, db'') = createSemanticRelationships st llm db' nodes
               in (edges @ semanticEdges, db''))
         else (edges, db'))"

subsection \<open>The main function\<close>

record summary =
  s_document_id :: jsstring
  total_entities :: nat
  total_nodes :: nat
  total_edges :: nat
  density :: rat

text \<open>The object that \<open>buildGraphFromChunks\<close> returns; \<open>summary\<close> and \<open>error\<close> are absent
  from some of its shapes.\<close>

record graph_data =
  g_nodes :: "node list"
  g_edges :: "edge list"
  g_summary :: "summary option"
  g_error :: "jsstring option"

definition empty_graph :: graph_data where
  "empty_graph = \<lparr>g_nodes = [], g_edges = [], g_summary = None, g_error = None\<rparr>"

text \<open>
  The three awaited stage calls of \<open>buildGraphFromChunks\<close>. A call either returns or
  throws, so each stage gives a sum; the stages that write to the store also give its
  new state.
\<close>

record 'db stages =
  st_extract :: "chunk list \<Rightarrow> js_exn + merged list"
  st_nodes :: "'db \<Rightarrow> merged list \<Rightarrow> jsstring \<Rightarrow> (js_exn + node list) \<times> 'db"
  st_edges :: "'db \<Rightarrow> chunk list \<Rightarrow> node list \<Rightarrow> jsstring \<Rightarrow> (js_exn + edge list) \<times> 'db"

text \<open>The \<open>try\<close> block: \<open>Inl\<close> is an error thrown inside it, \<open>Inr\<close> the object returned.\<close>

definition buildGraphTry ::
  "'db stages \<Rightarrow> 'db \<Rightarrow> chunk list \<Rightarrow> jsstring \<Rightarrow> (js_exn + graph_data) \<times> 'db" where
  "buildGraphTry st db chunks documentId =
     (if chunks = [] then (Inr empty_graph, db)
      else case st_extract st chunks of
        Inl err \<Rightarrow> (Inl err, db)
      | Inr allEntities \<Rightarrow>
          if allEntities = [] then (Inr empty_graph, db)
          else case st_nodes st db allEntities documentId of
            (Inl err, db1) \<Rightarrow> (Inl err, db1)
          | (Inr nodes, db1) \<Rightarrow>
              if nodes = [] then (Inr empty_graph, db1)
              else case st_edges st db1 chunks nodes documentId of
                (Inl err, db2) \<Rightarrow> (Inl err, db2)
              | (Inr edges, db2) \<Rightarrow>
                  (Inr \<lparr>g_nodes = nodes, g_edges = edges,
                        g_summary = Some \<lparr>s_document_id = documentId,
                           total_entities = length allEntities, total_nodes = length nodes,
                           total_edges = length edges,
                           density = of_nat (length edges) / of_nat (max 1 (length nodes))\<rparr>,
                        g_error = None\<rparr>, db2))"

text \<open>\<open>buildGraphFromChunks\<close>: the \<open>try\<close> block, and the \<open>catch\<close> that turns a thrown error
  into an empty graph carrying its message.\<close>

definition buildGraphFromChunks ::
  "'db stages \<Rightarrow> 'db \<Rightarrow> chunk list \<Rightarrow> jsstring \<Rightarrow> graph_data \<times> 'db" where
  "buildGraphFromChunks st db chunks documentId =
     (case buildGraphTry st db chunks documentId of
        (Inr graphData, db') \<Rightarrow> (graphData, db')
      | (Inl err, db') \<Rightarrow>
          (\<lparr>g_nodes = [], g_edges = [], g_summary = None, g_error = Some (message err)\<rparr>, db'))"

text \<open>The stages as the class defines them: each catches its own errors and returns.\<close>

definition memoryGraph_stages ::
  "(nat \<Rightarrow> jsstring \<Rightarrow> js_exn + entity list) \<Rightarrow> (nat \<Rightarrow> nat list) \<Rightarrow> 'db store
     \<Rightarrow> (node list \<Rightarrow> js_exn + proposal list) \<Rightarrow> 'db stages" where
  "memoryGraph_stages ai sched store llm =
     \<lparr>st_extract = (\<lambda>chunks. Inr (extractEntitiesFromChunks ai sched chunks)),
      st_nodes = (\<lambda>db entities documentId.
         (Inr (fst (createGraphNodes store db entities documentId)),
          snd (createGraphNodes store db entities documentId))),
      st_edges = (\<lambda>db chunks nodes documentId.
         (Inr (fst (analyzeRelationships store llm db chunks nodes)),
          snd (analyzeRelationships store llm db chunks nodes)))\<rparr>"

subsection \<open>A small document for the scenarios\<close>

definition demo_store :: "nat store" where
  "demo_store = \<lparr>createGraphNode = (\<lambda>db n. (Inr (Some [48 + db]), db + 1)),
                 createGraphEdge = (\<lambda>db d. (Inr (Some [48 + db]), db + 1))\<rparr>"

definition demo_node :: "string \<Rightarrow> string \<Rightarrow> node" where
  "demo_node i n = \<lparr>n_id = js i, n_document_id = js ''doc'', n_name = js n,
     n_type = js ''concept'', n_relevance = 8, n_occurrence_count = 1, n_source_chunks = [0],
     n_first_seen_chunk = 0, n_last_seen_chunk = 0, n_size = 26, n_color = js ''#FF9800''\<rparr>"

definition demo_nodes :: "node list" where
  "demo_nodes = [demo_node ''1'' ''Alpha'', demo_node ''2'' ''Beta'', demo_node ''3'' ''Gamma'']"

definition demo_chunk :: "string \<Rightarrow> chunk" where
  "demo_chunk c = \<lparr>content = js c, start = 0, endpos = int (length c), index = 0\<rparr>"

definition demo_chunks :: "chunk list" where
  "demo_chunks =
     [demo_chunk ''alpha meets beta'', demo_chunk ''Beta and Alpha'',
      demo_chunk ''beta with gamma'']"

definition demo_llm :: "node list \<Rightarrow> js_exn + proposal list" where
  "demo_llm ns = Inr [\<lparr>entity1 = js ''Alpha'', entity2 = js ''Gamma'',
                        relationship = js ''uses'', confidence = 8\<rparr>]"

definition demo_ai :: "nat \<Rightarrow> jsstring \<Rightarrow> js_exn + entity list" where
  "demo_ai i c =
     (if i = 0
      then Inr [\<lparr>ent_name = js ''Alpha'', ent_type = js ''concept'', ent_relevance = 8\<rparr>]
      else Inr [\<lparr>ent_name = js ''alpha'', ent_type = js ''concept'', ent_relevance = 6\<rparr>])"

text \<open>The edge stored for a pair of nodes that co-occurs twice.\<close>

definition abEdge :: "node \<Rightarrow> node \<Rightarrow> jsstring \<Rightarrow> edge" where
  "abEdge A B rid = \<lparr>e_id = rid, e_source = n_id A, e_target = n_id B,
      e_relationship = determineRelationship A B, e_weight = 2, e_width = 1,
      e_color = getEdgeColor (determineRelationship A B), e_ai_generated = False\<rparr>"

section \<open>Regular expressions\<close>

text \<open>
  The regular expressions of the sources are sequences of quantified character classes,
  assertions, capture groups and alternations of fixed words. A character class is a
  predicate on code units.
\<close>

type_synonym cls = "nat \<Rightarrow> bool"

text \<open>Line terminators (what \<open>.\<close> excludes and what \<open>^\<close> and \<open>$\<close> look at under the flag
  \<open>m\<close>), \<open>\d\<close>, \<open>[A-Z]\<close>, \<open>[a-z]\<close>, \<open>[A-Za-z]\<close>, \<open>\w\<close> and \<open>.\<close>.\<close>

definition is_lt :: cls where
  "is_lt c = (c = 10 \<or> c = 13 \<or> c = 8232 \<or> c = 8233)"

definition is_digit :: cls where
  "is_digit c = (48 \<le> c \<and> c \<le> 57)"

definition is_upper :: cls where
  "is_upper c = (65 \<le> c \<and> c \<le> 90)"

definition is_lower :: cls where
  "is_lower c = (97 \<le> c \<and> c \<le> 122)"

definition is_alpha :: cls where
  "is_alpha c = (is_upper c \<or> is_lower c)"

definition is_alnum :: cls where
  "is_alnum c = (is_alpha c \<or> is_digit c)"

definition is_word :: cls where
  "is_word c = (is_alnum c \<or> c = 95)"

definition any_char :: cls where
  "any_char c = (\<not> is_lt c)"

definition non_ws :: cls where
  "non_ws c = (\<not> is_ws c)"

text \<open>
  A literal character, a literal character under the flag \<open>i\<close>, and a class given by its
  members. Under \<open>i\<close> (without \<open>u\<close>) a Basic Latin letter matches its two cases only:
  a code unit from 128 on is never folded onto a Basic Latin one.
\<close>

definition ch :: "char \<Rightarrow> cls" where
  "ch x = (\<lambda>c. c = of_char x)"

definition ci :: "char \<Rightarrow> cls" where
  "ci x = (\<lambda>c. lower_unit c = lower_unit (of_char x))"

definition one_of :: "string \<Rightarrow> cls" where
  "one_of xs = (\<lambda>c. c \<in> set (js xs))"

text \<open>
  \<open>Cls P lo hi\<close> is the class \<open>P\<close> under a greedy quantifier \<open>{lo,hi}\<close> (no upper bound
  for \<open>None\<close>); \<open>Bol m\<close> and \<open>Eol m\<close> are \<open>^\<close> and \<open>$\<close>, with the flag \<open>m\<close>; \<open>WordB\<close> is \<open>\b\<close>;
  \<open>Ahead True P\<close> is \<open>(?=[P])\<close> and \<open>Ahead False P\<close> is \<open>(?![P])\<close>; \<open>GOpen n\<close> and
  \<open>GClose n\<close> delimit capture group \<open>n\<close>; \<open>Alts\<close> is an alternation of words, each a
  sequence of classes.
\<close>

datatype atom =
    Cls cls nat "nat option"
  | Bol bool
  | Eol bool
  | WordB
  | Ahead bool cls
  | GOpen nat
  | GClose nat
  | Alts "cls list list"

definition one :: "cls \<Rightarrow> atom" where
  "one P = Cls P 1 (Some 1)"

definition star :: "cls \<Rightarrow> atom" where
  "star P = Cls P 0 None"

definition plus :: "cls \<Rightarrow> atom" where
  "plus P = Cls P 1 None"

definition lit :: "string \<Rightarrow> atom list" where
  "lit w = map (\<lambda>x. one (ch x)) w"

definition lit_ci :: "string \<Rightarrow> atom list" where
  "lit_ci w = map (\<lambda>x. one (ci x)) w"

text \<open>
  The matcher runs on the rest \<open>s\<close> of the subject, with the code unit \<open>prev\<close> before it
  (none at the start of the subject) and the number \<open>k\<close> of code units consumed so far.
  Open groups remember where they started; closed groups hold the text captured.
\<close>

type_synonym caps = "(nat \<times> nat \<times> jsstring) list \<times> (nat \<times> jsstring) list"

text \<open>All ways to consume \<open>0, 1, 2, ...\<close> code units of class \<open>P\<close> (at most \<open>hi\<close>) from the
  front of the rest, shortest first.\<close>

fun splits :: "cls \<Rightarrow> nat option \<Rightarrow> nat \<Rightarrow> nat option \<Rightarrow> jsstring
    \<Rightarrow> (nat \<times> nat option \<times> jsstring) list" where
  "splits P hi j prev [] = [(j, prev, [])]"
| "splits P hi j prev (x # xs) =
     (j, prev, x # xs) #
     (if P x \<and> (case hi of None \<Rightarrow> True | Some h \<Rightarrow> j < h)
      then splits P hi (j + 1) (Some x) xs else [])"

definition at_bol :: "bool \<Rightarrow> nat option \<Rightarrow> bool" where
  "at_bol ml prev = (case prev of None \<Rightarrow> True | Some c \<Rightarrow> ml \<and> is_lt c)"

definition at_eol :: "bool \<Rightarrow> jsstring \<Rightarrow> bool" where
  "at_eol ml s = (case s of [] \<Rightarrow> True | x # xs \<Rightarrow> ml \<and> is_lt x)"

definition at_wordb :: "nat option \<Rightarrow> jsstring \<Rightarrow> bool" where
  "at_wordb prev s =
     ((case prev of None \<Rightarrow> False | Some c \<Rightarrow> is_word c)
        \<noteq> (case s of [] \<Rightarrow> False | x # xs \<Rightarrow> is_word x))"

definition ahead :: "cls \<Rightarrow> jsstring \<Rightarrow> bool" where
  "ahead P s = (case s of [] \<Rightarrow> False | x # xs \<Rightarrow> P x)"

definition lit_at :: "cls list \<Rightarrow> jsstring \<Rightarrow> bool" where
  "lit_at a s = (length a \<le> length s \<and> list_all2 (\<lambda>P c. P c) a (take (length a) s))"

fun first_some :: "('a \<Rightarrow> 'b option) \<Rightarrow> 'a list \<Rightarrow> 'b option" where
  "first_some f [] = None"
| "first_some f (x # xs) = (case f x of Some y \<Rightarrow> Some y | None \<Rightarrow> first_some f xs)"

lemma first_some_cong [fundef_cong]:
  "xs = ys \<Longrightarrow> (\<And>x. x \<in> set ys \<Longrightarrow> f x = g x) \<Longrightarrow> first_some f xs = first_some g ys"
  by (induction ys arbitrary: xs) (auto split: option.splits)

text \<open>
  Backtracking match of a sequence of atoms at the front of the rest: a quantified class
  tries the longest run first and gives code units back one at a time; an alternation
  tries its words from left to right. The result is the number of code units consumed
  and the captures.
\<close>

fun rx_match :: "atom list \<Rightarrow> nat option \<Rightarrow> jsstring \<Rightarrow> nat \<Rightarrow> caps \<Rightarrow> (nat \<times> caps) option" where
  "rx_match [] prev s k c = Some (k, c)"
| "rx_match (Cls P lo hi # r) prev s k c =
     first_some (\<lambda>(j, prev', s'). rx_match r prev' s' (k + j) c)
       (rev (filter (\<lambda>(j, prev', s'). lo \<le> j) (splits P hi 0 prev s)))"
| "rx_match (Bol ml # r) prev s k c = (if at_bol ml prev then rx_match r prev s k c else None)"
| "rx_match (Eol ml # r) prev s k c = (if at_eol ml s then rx_match r prev s k c else None)"
| "rx_match (WordB # r) prev s k c = (if at_wordb prev s then rx_match r prev s k c else None)"
| "rx_match (Ahead pos P # r) prev s k c =
     (if ahead P s = pos then rx_match r prev s k c else None)"
| "rx_match (GOpen n # r) prev s k c = rx_match r prev s k ((n, k, s) # fst c, snd c)"
| "rx_match (GClose n # r) prev s k c =
     rx_match r prev s k
       (fst c,
        (n, (case map_of (fst c) n of Some (k0, s0) \<Rightarrow> take (k - k0) s0 | None \<Rightarrow> [])) # snd c)"
| "rx_match (Alts alts # r) prev s k c =
     first_some (\<lambda>a. if lit_at a s
                      then rx_match r (if a = [] then prev else Some (s ! (length a - 1)))
                             (drop (length a) s) (k + length a) c
                      else None) alts"

definition rx_at :: "atom list \<Rightarrow> nat option \<Rightarrow> jsstring \<Rightarrow> (nat \<times> caps) option" where
  "rx_at rx prev s = rx_match rx prev s 0 ([], [])"

text \<open>\<open>rx.test(s)\<close> on a fresh expression: a match at some position of the subject.\<close>

fun rx_search :: "atom list \<Rightarrow> nat option \<Rightarrow> jsstring \<Rightarrow> bool" where
  "rx_search rx prev [] = (rx_at rx prev [] \<noteq> None)"
| "rx_search rx prev (x # xs) = (rx_at rx prev (x # xs) \<noteq> None \<or> rx_search rx (Some x) xs)"

definition rx_test :: "atom list \<Rightarrow> jsstring \<Rightarrow> bool" where
  "rx_test rx s = rx_search rx None s"

text \<open>A replacement: literal text, \<open>$n\<close>, and \<open>Head\<close> for the function
  \<open>match => match[0]\<close> (the first code unit of the match).\<close>

datatype piece = Lit jsstring | Grp nat | Head

definition expand :: "piece list \<Rightarrow> jsstring \<Rightarrow> caps \<Rightarrow> jsstring" where
  "expand t m c =
     concat (map (\<lambda>pc. case pc of
                          Lit l \<Rightarrow> l
                        | Grp n \<Rightarrow> (case map_of (snd c) n of Some g \<Rightarrow> g | None \<Rightarrow> [])
                        | Head \<Rightarrow> take 1 m) t)"

text \<open>
  \<open>s.replace(rx, t)\<close> with the flag \<open>g\<close>: the subject is scanned from left to right; at
  a position inside the previous match (\<open>skip > 0\<close>) nothing is tried; a match is
  replaced and the scan goes on behind it (one code unit further when the match is
  empty); a code unit where nothing matches is copied.
\<close>

fun rx_replace :: "atom list \<Rightarrow> piece list \<Rightarrow> nat option \<Rightarrow> nat \<Rightarrow> jsstring \<Rightarrow> jsstring" where
  "rx_replace rx t prev skip [] =
     (if 0 < skip then []
      else case rx_at rx prev [] of Some (k, c) \<Rightarrow> expand t [] c | None \<Rightarrow> [])"
| "rx_replace rx t prev skip (x # xs) =
     (if 0 < skip then rx_replace rx t (Some x) (skip - 1) xs
      else case rx_at rx prev (x # xs) of
             Some (k, c) \<Rightarrow>
               expand t (take k (x # xs)) c @
               (if k = 0 then x # rx_replace rx t (Some x) 0 xs
                else rx_replace rx t (Some x) (k - 1) xs)
           | None \<Rightarrow> x # rx_replace rx t (Some x) 0 xs)"

definition replace_all :: "atom list \<Rightarrow> piece list \<Rightarrow> jsstring \<Rightarrow> jsstring" where
  "replace_all rx t s = rx_replace rx t None 0 s"

text \<open>\<open>s.replace(rx, t)\<close> without the flag \<open>g\<close>: the leftmost match only.\<close>

fun rx_replace1 :: "atom list \<Rightarrow> piece list \<Rightarrow> nat option \<Rightarrow> jsstring \<Rightarrow> jsstring" where
  "rx_replace1 rx t prev [] =
     (case rx_at rx prev [] of Some (k, c) \<Rightarrow> expand t [] c | None \<Rightarrow> [])"
| "rx_replace1 rx t prev (x # xs) =
     (case rx_at rx prev (x # xs) of
        Some (k, c) \<Rightarrow> expand t (take k (x # xs)) c @ drop k (x # xs)
      | None \<Rightarrow> x # rx_replace1 rx t (Some x) xs)"

definition replace_first :: "atom list \<Rightarrow> piece list \<Rightarrow> jsstring \<Rightarrow> jsstring" where
  "replace_first rx t s = rx_replace1 rx t None s"

text \<open>Two shapes are written out: \<open>s.replace(/[P]/g, r)\<close>, every code unit of a class
  replaced by \<open>r\<close>, and \<open>s.replace(/[P]+/g, r)\<close>, every maximal run of the class
  replaced by \<open>r\<close>.\<close>

definition replace_each :: "cls \<Rightarrow> jsstring \<Rightarrow> jsstring \<Rightarrow> jsstring" where
  "replace_each P r s = concat (map (\<lambda>c. if P c then r else [c]) s)"

fun runs_from :: "cls \<Rightarrow> jsstring \<Rightarrow> bool \<Rightarrow> jsstring \<Rightarrow> jsstring" where
  "runs_from P r inside [] = []"
| "runs_from P r inside (x # xs) =
     (if P x then (if inside then [] else r) @ runs_from P r True xs
      else x # runs_from P r False xs)"

definition replace_runs :: "cls \<Rightarrow> jsstring \<Rightarrow> jsstring \<Rightarrow> jsstring" where
  "replace_runs P r s = runs_from P r False s"

text \<open>\<open>s.split(d)\<close> and \<open>lines.join(d)\<close> for a separator of one code unit.\<close>

fun split_on :: "nat \<Rightarrow> jsstring \<Rightarrow> jsstring list" where
  "split_on d [] = [[]]"
| "split_on d (x # xs) =
     (if x = d then [] # split_on d xs
      else (case split_on d xs of l # ls \<Rightarrow> (x # l) # ls | [] \<Rightarrow> [[x]]))"

fun join_with :: "nat \<Rightarrow> jsstring list \<Rightarrow> jsstring" where
  "join_with d [] = []"
| "join_with d [l] = l"
| "join_with d (l # ls) = l @ d # join_with d ls"

section \<open>Text cleaner (utils/fileParser/cleanText.js)\<close>

text \<open>The options that \<open>clean\<close> reads.\<close>

record options =
  opt_fixOCR :: bool
  opt_removeUrls :: bool
  opt_removeEmails :: bool
  opt_removeSpecialChars :: bool

definition default_options :: options where
  "default_options = \<lparr>opt_fixOCR = False, opt_removeUrls = False, opt_removeEmails = False,
      opt_removeSpecialChars = False\<rparr>"

subsection \<open>Detection of OCR damage\<close>

text \<open>The three expressions \<open>/[0O5]\s*[A-Za-z]/g\<close>, \<open>/[Il1]\s*[a-z]/g\<close> and
  \<open>/dassroom|fl.om|tecknology/gi\<close>.\<close>

definition ocrPatterns :: "atom list list" where
  "ocrPatterns =
     [[one (one_of ''0O5''), star is_ws, one is_alpha],
      [one (one_of ''Il1''), star is_ws, one is_lower],
      [Alts [map ci ''dassroom'',
             [ci CHR ''f'', ci CHR ''l'', any_char, ci CHR ''o'', ci CHR ''m''],
             map ci ''tecknology'']]]"

text \<open>
  \<open>detectOcrIssues\<close>. The test \<open>spaces > chars * 0.4\<close> is on at most 500 code units;
  there the floating-point product is the exact one whenever it is an integer, so the
  comparison is the one of the rationals.
\<close>

definition detectOcrIssues :: "jsstring \<Rightarrow> bool" where
  "detectOcrIssues text =
     (if length text < 50 then False
      else (let sample = substring text 0 500;
                spaces = length (filter is_ws sample);
                chars = length (replace_each is_ws [] sample)
            in if (of_nat chars :: rat) * (4 / 10) < of_nat spaces then True
               else list_ex (\<lambda>pattern. rx_test pattern text) ocrPatterns))"

subsection \<open>Repair of OCR damage\<close>

definition wordEndings :: "string list" where
  "wordEndings = [''ing'', ''ed'', ''ly'', ''tion'', ''ment'', ''ness'', ''ity'', ''al'']"

text \<open>
  \<open>fixOcrSpacing\<close>: leading junk is removed (two expressions without the flag \<open>g\<close>,
  anchored at the start); a text with more than 0.6 white-space characters per other
  character, and more than 20 of those, loses all its white space and gets a space at
  sentence, camel-case, digit and word-ending boundaries; runs of punctuation are cut to
  their first character.
\<close>

definition fixOcrSpacing :: "jsstring \<Rightarrow> jsstring" where
  "fixOcrSpacing text =
     (let cleaned = replace_first [Bol False, Cls (\<lambda>c. \<not> is_alnum c \<and> \<not> is_ws c) 5 None] [] text;
          cleaned = replace_first [Bol False, plus (\<lambda>c. \<not> is_alnum c)] [] cleaned;
          nonSpaceChars = length (replace_each is_ws [] cleaned);
          spaceCount = length (filter is_ws cleaned);
          cleaned =
            (if (of_nat nonSpaceChars :: rat) * (6 / 10) < of_nat spaceCount \<and> 20 < nonSpaceChars
             then (let noSpaces = replace_runs is_ws [] cleaned;
                       reconstructed = replace_all
                          [GOpen 1, one (one_of ''.!?''), GClose 1, GOpen 2, one is_upper, GClose 2]
                          [Grp 1, Lit (js '' ''), Grp 2] noSpaces;
                       reconstructed = replace_all
                          [GOpen 1, one is_lower, GClose 1, GOpen 2, one is_upper, GClose 2]
                          [Grp 1, Lit (js '' ''), Grp 2] reconstructed;
                       reconstructed = replace_all
                          [GOpen 1, one is_digit, GClose 1, GOpen 2, one is_alpha, GClose 2]
                          [Grp 1, Lit (js '' ''), Grp 2] reconstructed;
                       reconstructed = replace_all
                          [GOpen 1, one is_alpha, GClose 1, GOpen 2, one is_digit, GClose 2]
                          [Grp 1, Lit (js '' ''), Grp 2] reconstructed
                   in fold (\<lambda>ending acc. replace_all
                              ([GOpen 1, one is_alpha, GClose 1, GOpen 2] @ lit_ci ending @
                               [GClose 2, GOpen 3, one is_alpha, GClose 3])
                              [Grp 1, Grp 2, Lit (js '' ''), Grp 3] acc)
                        wordEndings reconstructed)
             else cleaned)
      in replace_all [Cls (one_of ''.,!?;:'') 2 None] [Head] cleaned)"

text \<open>The table of \<open>fixOcrCharacters\<close>, in its order.\<close>

definition charReplacements :: "(atom list \<times> jsstring) list" where
  "charReplacements =
     [([one (ch CHR ''0''), Ahead True is_alpha], js ''O''),
      ([one (ch CHR ''0''), Ahead False is_digit], js ''O''),
      ([one (ch CHR ''5''), Ahead True is_alpha], js ''S''),
      ([one (ch CHR ''1''), Ahead False is_digit], js ''I''),
      ([one (ch CHR ''O''), Ahead True is_digit], js ''0''),
      ([one (ch CHR ''S''), Ahead True is_digit], js ''5''),
      ([one (ch CHR ''I''), Ahead True is_digit], js ''1''),
      ([one (ch CHR ''l''), Ahead True is_digit], js ''1''),
      (lit ''|'', js ''I''),
      (lit ''@'', js ''a''),
      (lit ''[rn]'', js ''m''),
      (lit ''cl'', js ''d''),
      (lit ''vv'', js ''w''),
      (lit_ci ''fIom'', js ''from''),
      (lit_ci ''fl-om'', js ''from''),
      ([one (\<lambda>c. c = 163)], js ''E'')]"

definition fixOcrCharacters :: "jsstring \<Rightarrow> jsstring" where
  "fixOcrCharacters text =
     fold (\<lambda>(pattern, replacement) fixed. replace_all pattern [Lit replacement] fixed)
       charReplacements text"

text \<open>
  The table of \<open>fixOcrWords\<close>, in its order. Each word is spliced into
  \<open>new RegExp(`\\b${bad}\\b`, 'gi')\<close> as it is, so a \<open>.\<close> in it is the wild card.
  \<open>MIST\<close> is followed by the pound sign U+00A3.
\<close>

definition wordReplacements :: "(string \<times> string) list" where
  "wordReplacements =
     [(''dassroom'', ''classroom''),
      (''tecknology'', ''technology''),
      (''technoIogy'', ''technology''),
      (''univer5ity'', ''university''),
      (''5tudent'', ''student''),
      (''re5earch'', ''research''),
      (''5kills'', ''skills''),
      (''experi5e'', ''expertise''),
      (''5uccess'', ''success''),
      (''5ystem'', ''system''),
      (''Etitive'', ''competitive''),
      (''dassroom'', ''classroom''),
      (''Jaalial'', ''Jagtial''),
      (''Jpail'', ''Jagtial''),
      (''Engin.;;.,;no'', ''Engineering''),
      (''MIST'' @ [CHR 0xA3], ''MISTE''),
      (''Ac. In'', ''ac.in''),
      (''jntuh. Ac. In'', ''jntuh.ac.in''),
      (''B.Tech'', ''B.Tech''),
      (''M.Tech'', ''M.Tech''),
      (''Ph.D.'', ''Ph.D.''),
      (''Dr.'', ''Dr.''),
      (''Prof.'', ''Prof.''),
      (''Mr.'', ''Mr.''),
      (''Ms.'', ''Ms.''),
      (''Mrs.'', ''Mrs.'')]"

definition word_rx :: "string \<Rightarrow> atom list" where
  "word_rx bad =
     WordB # map (\<lambda>x. if x = CHR ''.'' then one any_char else one (ci x)) bad @ [WordB]"

definition fixOcrWords :: "jsstring \<Rightarrow> jsstring" where
  "fixOcrWords text =
     fold (\<lambda>(bad, good) fixed. replace_all (word_rx bad) [Lit (js good)] fixed)
       wordReplacements text"

text \<open>\<open>fixOcrFormatting\<close>: e-mail addresses, top-level domains, telephone numbers, dates,
  hyphens and apostrophes, in the order of the source.\<close>

definition fixOcrFormatting :: "jsstring \<Rightarrow> jsstring" where
  "fixOcrFormatting text =
     (let fixed = replace_all
            [GOpen 1, plus is_word, GClose 1, star is_ws, one (ch CHR ''@''), star is_ws,
             GOpen 2, plus is_word, GClose 2]
            [Grp 1, Lit (js ''@''), Grp 2] text;
          fixed = replace_all
            [GOpen 1, plus is_word, GClose 1, one (ch CHR ''.''), star is_ws, GOpen 2,
             Alts [map ci ''com'', map ci ''org'', map ci ''edu'', map ci ''net'', map ci ''in'',
                   map ci ''ac''], GClose 2]
            [Grp 1, Lit (js ''.''), Grp 2] fixed;
          fixed = replace_all
            [GOpen 1, one is_digit, GClose 1, plus is_ws, GOpen 2, one is_digit, GClose 2,
             plus is_ws, GOpen 3, one is_digit, GClose 3, plus is_ws,
             GOpen 4, one is_digit, GClose 4, plus is_ws, GOpen 5, one is_digit, GClose 5,
             plus is_ws, GOpen 6, one is_digit, GClose 6, plus is_ws,
             GOpen 7, one is_digit, GClose 7, plus is_ws, GOpen 8, one is_digit, GClose 8,
             plus is_ws, GOpen 9, one is_digit, GClose 9, plus is_ws,
             GOpen 10, one is_digit, GClose 10]
            [Grp 1, Grp 2, Grp 3, Grp 4, Grp 5, Grp 6, Grp 7, Grp 8, Grp 9, Grp 10] fixed;
          fixed = replace_all
            [WordB, GOpen 1, Cls is_digit 10 (Some 10), GClose 1, WordB]
            [Lit (js ''+91 ''), Grp 1] fixed;
          fixed = replace_all
            ([WordB] @ lit ''91'' @
             [plus is_ws, GOpen 1, Cls is_digit 10 (Some 10), GClose 1, WordB])
            [Lit (js ''+91 ''), Grp 1] fixed;
          fixed = replace_all
            [GOpen 1, Cls is_digit 4 (Some 4), GClose 1, star is_ws, one (one_of ''-_''),
             star is_ws, GOpen 2, Cls is_digit 2 (Some 2), GClose 2, star is_ws,
             one (one_of ''-_''), star is_ws, GOpen 3, Cls is_digit 2 (Some 2), GClose 3]
            [Grp 1, Lit (js ''-''), Grp 2, Lit (js ''-''), Grp 3] fixed;
          fixed = replace_all
            [GOpen 1, one is_word, GClose 1, star is_ws, one (ch CHR ''-''), star is_ws,
             GOpen 2, one is_word, GClose 2]
            [Grp 1, Grp 2] fixed
      in replace_all
            [GOpen 1, one is_word, GClose 1, star is_ws, one (\<lambda>c. c = 39), star is_ws,
             GOpen 2, one is_word, GClose 2]
            [Grp 1, Lit [39], Grp 2] fixed)"

subsection \<open>Basic cleaning\<close>

text \<open>\<open>removeNullCharacters\<close>: \<open>/\0/g\<close>, \<open>/[\x00-\x08\x0B\x0C\x0E-\x1F\x7F]/g\<close> and
  the class of U+200B to U+200D and U+FEFF, each replaced by nothing.\<close>

definition is_control :: cls where
  "is_control c = (c \<le> 8 \<or> c = 11 \<or> c = 12 \<or> (14 \<le> c \<and> c \<le> 31) \<or> c = 127)"

definition is_zero_width :: cls where
  "is_zero_width c = ((8203 \<le> c \<and> c \<le> 8205) \<or> c = 65279)"

definition removeNullCharacters :: "jsstring \<Rightarrow> jsstring" where
  "removeNullCharacters text =
     replace_each is_zero_width []
       (replace_each is_control [] (replace_each (\<lambda>c. c = 0) [] text))"

text \<open>\<open>normalizeWhitespace\<close>: \<open>/\r\n/g\<close>, \<open>/\r/g\<close>, \<open>/\t/g\<close>, \<open>/[ \t]+/g\<close>,
  \<open>/\n[ \t]+\n/g\<close>, \<open>/\n{3,}/g\<close> and \<open>trim\<close>.\<close>

definition sp_tab :: cls where
  "sp_tab c = (c = 32 \<or> c = 9)"

definition normalizeWhitespace :: "jsstring \<Rightarrow> jsstring" where
  "normalizeWhitespace text =
     trim
       (replace_all [Cls (\<lambda>c. c = 10) 3 None] [Lit [10, 10]]
          (replace_all [one (\<lambda>c. c = 10), plus sp_tab, one (\<lambda>c. c = 10)] [Lit [10, 10]]
             (replace_runs sp_tab (js '' '')
                (replace_each (\<lambda>c. c = 9) (js ''    '')
                   (replace_each (\<lambda>c. c = 13) [10]
                      (replace_all [one (\<lambda>c. c = 13), one (\<lambda>c. c = 10)] [Lit [10]] text))))))"

text \<open>
  \<open>cleanPageHeadersFooters\<close>: \<open>/^\s*\d+\s*$/gm\<close>, then \<open>/^Page\s+\d+\s+of\s+\d+$/gmi\<close>,
  \<open>/^Confidential$/gmi\<close>, \<open>/^Draft$/gmi\<close>, \<open>/^(c).*$/gmi\<close> with the copyright sign U+00A9,
  \<open>/^Copyright.*$/gmi\<close> and \<open>/^\d{1,2}\/\d{1,2}\/\d{4}$/gm\<close>, each replaced by nothing.
\<close>

definition pageNumberPattern :: "atom list" where
  "pageNumberPattern = [Bol True, star is_ws, plus is_digit, star is_ws, Eol True]"

definition pageOfPattern :: "atom list" where
  "pageOfPattern =
     [Bol True] @ lit_ci ''Page'' @ [plus is_ws, plus is_digit, plus is_ws] @ lit_ci ''of'' @
     [plus is_ws, plus is_digit, Eol True]"

definition confidentialPattern :: "atom list" where
  "confidentialPattern = [Bol True] @ lit_ci ''Confidential'' @ [Eol True]"

definition draftPattern :: "atom list" where
  "draftPattern = [Bol True] @ lit_ci ''Draft'' @ [Eol True]"

definition copyrightSignPattern :: "atom list" where
  "copyrightSignPattern = [Bol True, one (\<lambda>c. c = 169), star any_char, Eol True]"

definition copyrightPattern :: "atom list" where
  "copyrightPattern = [Bol True] @ lit_ci ''Copyright'' @ [star any_char, Eol True]"

definition datePattern :: "atom list" where
  "datePattern =
     [Bol True, Cls is_digit 1 (Some 2), one (ch CHR ''/''), Cls is_digit 1 (Some 2),
      one (ch CHR ''/''), Cls is_digit 4 (Some 4), Eol True]"

definition headerPatterns :: "atom list list" where
  "headerPatterns =
     [pageOfPattern, confidentialPattern, draftPattern, copyrightSignPattern,
      copyrightPattern, datePattern]"

definition cleanPageHeadersFooters :: "jsstring \<Rightarrow> jsstring" where
  "cleanPageHeadersFooters text =
     fold (\<lambda>pattern cleaned. replace_all pattern [] cleaned) headerPatterns
       (replace_all pageNumberPattern [] text)"

text \<open>\<open>removeUrls\<close> (\<open>/https?:\/\/[^\s]+/g\<close>), \<open>removeEmails\<close> (\<open>/\S+@\S+\.\S+/g\<close>) and
  \<open>removeSpecialCharacters\<close>, whose class keeps \<open>\w\<close>, \<open>\s\<close>, the range from \<open>+\<close> to \<open>=\<close>
  and the listed punctuation.\<close>

definition removeUrls :: "jsstring \<Rightarrow> jsstring" where
  "removeUrls text =
     replace_all (lit ''http'' @ [Cls (ch CHR ''s'') 0 (Some 1)] @ lit ''://'' @ [plus non_ws]) [] text"

definition removeEmails :: "jsstring \<Rightarrow> jsstring" where
  "removeEmails text =
     replace_all [plus non_ws, one (ch CHR ''@''), plus non_ws, one (ch CHR ''.''), plus non_ws] []
       text"

definition is_kept :: cls where
  "is_kept c = (is_word c \<or> is_ws c \<or> c \<in> set (js ''.,!?;:()[]{}@#$%&*<>/|~'')
     \<or> c = 39 \<or> c = 34 \<or> c = 92 \<or> c = 96 \<or> (43 \<le> c \<and> c \<le> 61))"

definition removeSpecialCharacters :: "jsstring \<Rightarrow> jsstring" where
  "removeSpecialCharacters text = replace_each (\<lambda>c. \<not> is_kept c) (js '' '') text"

definition ensureSentenceEndings :: "jsstring \<Rightarrow> jsstring" where
  "ensureSentenceEndings text =
     (if text = [] then text
      else if \<not> one_of ''.!?'' (last text) then text @ js ''.''
      else text)"

text \<open>The loop of \<open>removeDuplicateLines\<close>, with the set \<open>seen\<close>.\<close>

fun uniqueLines :: "jsstring list \<Rightarrow> jsstring list \<Rightarrow> jsstring list" where
  "uniqueLines [] seen = []"
| "uniqueLines (line # lines) seen =
     (let trimmed = trim line
      in if length trimmed < 10 then line # uniqueLines lines seen
         else (let simple = replace_runs is_ws (js '' '') (toLowerCase trimmed)
               in if simple \<in> set seen then uniqueLines lines seen
                  else line # uniqueLines lines (simple # seen)))"

definition removeDuplicateLines :: "jsstring \<Rightarrow> jsstring" where
  "removeDuplicateLines text = join_with 10 (uniqueLines (split_on 10 text) [])"

text \<open>\<open>finalCleanup\<close>: \<open>/\s+/g\<close> replaced by a space, \<open>/^\s+|\s+$/g\<close> (the white space at
  the start and at the end of the text) replaced by nothing, and \<open>trim\<close>.\<close>

definition strip_ends :: "jsstring \<Rightarrow> jsstring" where
  "strip_ends s = rev (dropWhile is_ws (rev (dropWhile is_ws s)))"

definition finalCleanup :: "jsstring \<Rightarrow> jsstring" where
  "finalCleanup text = trim (strip_ends (replace_runs is_ws (js '' '') text))"

subsection \<open>The main function\<close>

text \<open>
  \<open>clean(text, options)\<close> on a string. Every phase is a total function on strings
  (\<open>replace\<close>, \<open>split\<close>, \<open>join\<close> and \<open>trim\<close> do not throw), so the \<open>catch\<close> branch, which
  would return the text as it came, is not reached.
\<close>

definition clean :: "jsstring \<Rightarrow> options \<Rightarrow> jsstring" where
  "clean text opts =
     (if text = [] then []
      else (let cleaned = removeNullCharacters text;
                cleaned = normalizeWhitespace cleaned;
                cleaned = cleanPageHeadersFooters cleaned;
                cleaned = (if opt_fixOCR opts \<or> detectOcrIssues cleaned
                           then fixOcrFormatting (fixOcrWords (fixOcrCharacters (fixOcrSpacing cleaned)))
                           else cleaned);
                cleaned = (if opt_removeUrls opts then removeUrls cleaned else cleaned);
                cleaned = (if opt_removeEmails opts then removeEmails cleaned else cleaned);
                cleaned = (if opt_removeSpecialChars opts then removeSpecialCharacters cleaned
                           else cleaned);
                cleaned = ensureSentenceEndings cleaned;
                cleaned = removeDuplicateLines cleaned
            in finalCleanup cleaned))"

subsection \<open>Sample texts\<close>





section \<open>PDF parser (utils/fileParser/pdfParser.js)\<close>

text \<open>The result of an extraction; \<open>metadata\<close> is absent from the failure of
  \<open>extractTextPDFs\<close>, and each stage fills the fields it knows.\<close>

record metadata =
  md_pages :: nat
  md_text_length :: nat
  md_method :: jsstring
  md_quality :: jsstring
  md_successful_pages :: "nat option"
  md_note :: "jsstring option"
  md_warning :: "jsstring option"
  md_error :: "jsstring option"

record extraction =
  r_success :: bool
  r_text :: jsstring
  r_metadata :: "metadata option"

text \<open>The fixed message of \<open>getHelpMessage\<close>; its bullets are U+2022.\<close>

definition getHelpMessage :: jsstring where
  "getHelpMessage =
     join_with 10
       [js ''This PDF could not be processed. It may be:'',
        8226 # js '' Scanned/image-based'',
        8226 # js '' Password protected/encrypted'',
        8226 # js '' Corrupted or invalid'',
        [],
        js ''SOLUTIONS:'',
        js ''1. Convert to text-searchable PDF using Adobe Acrobat'',
        js ''2. Use free online OCR: smallpdf.com/ocr-pdf'',
        js ''3. Export as .txt file from original document'',
        js ''4. Take screenshot and use Google Drive OCR'',
        [],
        js ''For best results with MemoryGraph AI, use text-searchable documents.'']"

text \<open>
  The four methods that \<open>parse\<close> calls, on a buffer type \<open>'b\<close> and an image type \<open>'i\<close>.
  The three awaited in the \<open>try\<close> block return or throw; \<open>extractAnyTextFromBuffer\<close>,
  called in the \<open>catch\<close> block, scrapes the first 200000 bytes with five expressions and
  returns the empty string on any error of its own.
\<close>

record ('b, 'i) pdf_stages =
  extractTextPDFs :: "'b \<Rightarrow> js_exn + extraction"
  convertPDFToImages :: "'b \<Rightarrow> js_exn + 'i list"
  processImagesWithOCR :: "'i list \<Rightarrow> js_exn + extraction"
  extractAnyTextFromBuffer :: "'b \<Rightarrow> jsstring"

text \<open>The \<open>try\<close> block of \<open>parse\<close>: the result returned, or the error thrown.\<close>

definition parseTry :: "('b, 'i) pdf_stages \<Rightarrow> 'b \<Rightarrow> js_exn + extraction" where
  "parseTry st buffer =
     (case extractTextPDFs st buffer of
        Inl err \<Rightarrow> Inl err
      | Inr textResult \<Rightarrow>
          if r_success textResult \<and> 200 < length (r_text textResult) then Inr textResult
          else case convertPDFToImages st buffer of
            Inl err \<Rightarrow> Inl err
          | Inr tempImages \<Rightarrow>
              if tempImages = [] then Inl (JsError (js ''Could not convert PDF to images''))
              else case processImagesWithOCR st tempImages of
                Inl err \<Rightarrow> Inl err
              | Inr ocrResult \<Rightarrow>
                  if r_success ocrResult \<and> 100 < length (r_text ocrResult) then Inr ocrResult
                  else Inl (JsError (js ''OCR extracted too little text'')))"

text \<open>The two results of the \<open>catch\<close> block.\<close>

definition bufferFallback :: "jsstring \<Rightarrow> extraction" where
  "bufferFallback fallbackText =
     \<lparr>r_success = True, r_text = fallbackText,
      r_metadata = Some \<lparr>md_pages = 1, md_text_length = length fallbackText,
        md_method = js ''buffer_fallback'', md_quality = js ''partial'',
        md_successful_pages = None, md_note = None,
        md_warning = Some (js ''Limited text extracted''), md_error = None\<rparr>\<rparr>"

definition guidance :: "js_exn \<Rightarrow> extraction" where
  "guidance err =
     \<lparr>r_success = True, r_text = getHelpMessage,
      r_metadata = Some \<lparr>md_pages = 0, md_text_length = 0,
        md_method = js ''failed'', md_quality = js ''needs_conversion'',
        md_successful_pages = None, md_note = None,
        md_warning = None, md_error = Some (message err)\<rparr>\<rparr>"

text \<open>
  \<open>parse(buffer, options)\<close>; the options are handed on and read by no stage. The
  \<open>finally\<close> block releases the OCR worker and the temporary files, catches its own
  errors and leaves the result as it is.
\<close>

definition parse :: "('b, 'i) pdf_stages \<Rightarrow> 'b \<Rightarrow> extraction" where
  "parse st buffer =
     (case parseTry st buffer of
        Inr result \<Rightarrow> result
      | Inl err \<Rightarrow>
          (let fallbackText = extractAnyTextFromBuffer st buffer
           in if 100 < length fallbackText then bufferFallback fallbackText
              else guidance err))"

subsection \<open>The stages over their libraries\<close>

text \<open>
  The libraries are collaborators: \<open>pdfParse\<close> gives the text and the page count or
  throws, \<open>pdf2json\<close> gives the text that \<open>parseWithPdf2Json\<close> resolves to, \<open>pdf2pic\<close>
  gives for each generated page the image read back or the error of reading it,
  \<open>createWorker\<close> gives the error of starting the OCR worker if there is one,
  \<open>recognize\<close> gives the text of an image, and \<open>scrape\<close> is the pattern scraping of the
  decoded buffer.
\<close>

record ('b, 'i) pdf_libs =
  pdfParse :: "'b \<Rightarrow> js_exn + jsstring \<times> nat"
  pdf2json :: "'b \<Rightarrow> js_exn + jsstring"
  pdf2pic :: "'b \<Rightarrow> js_exn + (js_exn + 'i) list"
  createWorker :: "js_exn option"
  recognize :: "'i \<Rightarrow> js_exn + jsstring"
  scrape :: "'b \<Rightarrow> jsstring"

definition text_pdf :: "jsstring \<Rightarrow> nat \<Rightarrow> string \<Rightarrow> extraction" where
  "text_pdf t n m =
     \<lparr>r_success = True, r_text = t,
      r_metadata = Some \<lparr>md_pages = n, md_text_length = length t, md_method = js m,
        md_quality = js ''text_pdf'', md_successful_pages = None, md_note = None,
        md_warning = None, md_error = None\<rparr>\<rparr>"

text \<open>\<open>extractTextPDFs\<close>: \<open>pdf-parse\<close>, then \<open>pdf2json\<close>, each accepted with more than 100
  characters; the errors of both are ignored.\<close>

definition extractTextPDFs_impl :: "('b, 'i) pdf_libs \<Rightarrow> 'b \<Rightarrow> extraction" where
  "extractTextPDFs_impl lib buffer =
     (let second =
            (case pdf2json lib buffer of
               Inr t \<Rightarrow> if 100 < length t then text_pdf t 1 ''pdf2json''
                         else \<lparr>r_success = False, r_text = [], r_metadata = None\<rparr>
             | Inl e \<Rightarrow> \<lparr>r_success = False, r_text = [], r_metadata = None\<rparr>)
      in case pdfParse lib buffer of
           Inr (t, numpages) \<Rightarrow> if 100 < length t then text_pdf t numpages ''pdf-parse'' else second
         | Inl e \<Rightarrow> second)"

text \<open>\<open>convertPDFToImages\<close>: the images that could be read back; no image when the
  conversion throws or generates nothing.\<close>

definition convertPDFToImages_impl :: "('b, 'i) pdf_libs \<Rightarrow> 'b \<Rightarrow> 'i list" where
  "convertPDFToImages_impl lib buffer =
     (case pdf2pic lib buffer of
        Inl e \<Rightarrow> []
      | Inr result \<Rightarrow> concat (map (\<lambda>item. case item of Inr b \<Rightarrow> [b] | Inl e \<Rightarrow> []) result))"

text \<open>The decimal numeral of a page number.\<close>

function dec :: "nat \<Rightarrow> jsstring" where
  "dec n = (if n < 10 then [48 + n] else dec (n div 10) @ [48 + n mod 10])"
  by pat_completeness auto
termination
  by (relation "measure id") auto

text \<open>The loop of \<open>processImagesWithOCR\<close> over the pages from number \<open>i + 1\<close> on: the text
  gathered and the number of pages with more than 50 characters.\<close>

fun ocrPages :: "('i \<Rightarrow> js_exn + jsstring) \<Rightarrow> nat \<Rightarrow> 'i list \<Rightarrow> jsstring \<times> nat" where
  "ocrPages rec i [] = ([], 0)"
| "ocrPages rec i (b # bs) =
     (let (rest, n) = ocrPages rec (i + 1) bs
      in case rec b of
           Inr t \<Rightarrow>
             if 50 < length (trim t) then (trim t @ [10, 10] @ rest, n + 1)
             else (js ''[Page '' @ dec (i + 1) @ js '' - Low text quality]'' @ [10, 10] @ rest, n)
         | Inl pageError \<Rightarrow>
             (js ''[Page '' @ dec (i + 1) @ js '' - OCR failed]'' @ [10, 10] @ rest, n))"

definition processImagesWithOCR_impl :: "('b, 'i) pdf_libs \<Rightarrow> 'i list \<Rightarrow> js_exn + extraction" where
  "processImagesWithOCR_impl lib imageBuffers =
     (case createWorker lib of
        Some err \<Rightarrow> Inl err
      | None \<Rightarrow>
          (let (fullText, successfulPages) = ocrPages (recognize lib) 0 imageBuffers
           in if successfulPages = 0
              then Inl (JsError (js ''No pages successfully OCR processed''))
              else (let cleaned = clean fullText (default_options\<lparr>opt_fixOCR := True\<rparr>)
                    in Inr \<lparr>r_success = True, r_text = cleaned,
                         r_metadata = Some \<lparr>md_pages = length imageBuffers,
                           md_text_length = length cleaned, md_method = js ''tesseract-ocr'',
                           md_quality = js ''ocr_processed'',
                           md_successful_pages = Some successfulPages,
                           md_note = Some (js ''Scanned PDF processed with OCR''),
                           md_warning = None, md_error = None\<rparr>\<rparr>)))"

text \<open>The stages of the class; the three of the \<open>try\<close> block catch or pass on as above.\<close>

definition pdfParser_stages :: "('b, 'i) pdf_libs \<Rightarrow> ('b, 'i) pdf_stages" where
  "pdfParser_stages lib =
     \<lparr>extractTextPDFs = (\<lambda>buffer. Inr (extractTextPDFs_impl lib buffer)),
      convertPDFToImages = (\<lambda>buffer. Inr (convertPDFToImages_impl lib buffer)),
      processImagesWithOCR = processImagesWithOCR_impl lib,
      extractAnyTextFromBuffer = scrape lib\<rparr>"

text \<open>Libraries that all fail on a buffer, for the scenarios.\<close>

definition failing_libs :: "(nat list, nat list) pdf_libs" where
  "failing_libs =
     \<lparr>pdfParse = (\<lambda>b. Inl (JsError (js ''Invalid PDF structure''))),
      pdf2json = (\<lambda>b. Inr []),
      pdf2pic = (\<lambda>b. Inl (JsError (js ''gm not found''))),
      createWorker = None,
      recognize = (\<lambda>i. Inr []),
      scrape = (\<lambda>b. [])\<rparr>"

section \<open>Notions used in the statements and proofs\<close>




text \<open>No two consecutive spaces.\<close>

definition no_double :: "jsstring \<Rightarrow> bool" where
  "no_double s = (\<not> (\<exists>u v. s = u @ 32 # 32 # v))"



text \<open>Three lines, the third a copy of the first without its full stop.\<close>

definition dup_sample :: jsstring where
  "dup_sample = js ''Hello world.'' @ [10] @ js ''Bye'' @ [10] @ js ''hello world''"










section \<open>Properties of the chunker\<close>

lemma dropWhile_none: "\<forall>c\<in>set s. \<not> P c \<Longrightarrow> dropWhile P s = s"
  by (cases s) auto

lemma trim_no_ws: "\<forall>c\<in>set s. \<not> is_ws c \<Longrightarrow> trim s = s"
  by (simp add: trim_def dropWhile_none)

lemma length_substring_le: "length (substring s a b) \<le> length s"
  by (simp add: substring_def Let_def)

lemma substring_replicate:
  "0 \<le> a \<Longrightarrow> a \<le> b \<Longrightarrow> b \<le> int n \<Longrightarrow>
     substring (replicate n x) a b = replicate (nat (b - a)) x"
  unfolding substring_def clamp_index_def Let_def
  by (auto simp: min_def max_def) arith+

text \<open>
  The loop invariant: the chunks pushed so far carry the indices \<open>0, 1, ...\<close>, their
  offsets increase and stay below the current offset, and each lies inside the text.
  With a positive step the distance to the end of the text decreases, so the loop returns.
\<close>

lemma chunk_loop_inv:
  assumes "overlap < chunkSize" and "0 < chunkSize" and "0 \<le> st"
    and "map index chunks = [0..<length chunks]" and "chunkIndex = length chunks"
    and "sorted_wrt (<) (map start chunks)" and "\<forall>c\<in>set chunks. start c < st"
    and "\<forall>c\<in>set chunks. start c < endpos c \<and> endpos c \<le> int (length t)"
  shows "\<exists>r. chunk_loop t chunkSize overlap chunks st chunkIndex = Some r
           \<and> map index r = [0..<length r] \<and> sorted_wrt (<) (map start r)
           \<and> (\<forall>c\<in>set r. start c < endpos c \<and> endpos c \<le> int (length t))"
  using assms
proof (induction "nat (int (length t) - st)" arbitrary: st chunks chunkIndex rule: less_induct)
  case less
  show ?case
  proof (cases "st < int (length t)")
    case False
    then show ?thesis using less.prems by (subst chunk_loop.simps) simp
  next
    case True
    define en where "en = min (st + chunkSize) (int (length t))"
    define cont where "cont = trim (substring t st en)"
    define chunks' where "chunks' = (if 10 < length cont
       then chunks @ [\<lparr>content = cont, start = st, endpos = en, index = chunkIndex\<rparr>]
       else chunks)"
    define chunkIndex' where
      "chunkIndex' = (if 10 < length cont then chunkIndex + 1 else chunkIndex)"
    define st' where "st' = st + (chunkSize - overlap)"
    have unfold: "chunk_loop t chunkSize overlap chunks st chunkIndex =
        (if 1000 < length chunks' then Some chunks'
         else chunk_loop t chunkSize overlap chunks' st' chunkIndex')"
      using True
      by (subst chunk_loop.simps)
         (simp add: Let_def en_def cont_def chunks'_def chunkIndex'_def st'_def)
    have en: "st < en" "en \<le> int (length t)"
      using True less.prems(2) by (auto simp: en_def)
    have i1: "map index chunks' = [0..<length chunks']"
      using less.prems(4,5) by (simp add: chunks'_def)
    have i2: "chunkIndex' = length chunks'"
      using less.prems(5) by (simp add: chunks'_def chunkIndex'_def)
    have i3: "sorted_wrt (<) (map start chunks')"
      using less.prems(6,7) by (auto simp: chunks'_def sorted_wrt_append)
    have i4: "\<forall>c\<in>set chunks'. start c < st'"
      using less.prems(1,7) by (auto simp: chunks'_def st'_def)
    have i5: "\<forall>c\<in>set chunks'. start c < endpos c \<and> endpos c \<le> int (length t)"
      using less.prems(8) en by (auto simp: chunks'_def)
    show ?thesis
    proof (cases "1000 < length chunks'")
      case True
      then show ?thesis using unfold i1 i3 i5 by simp
    next
      case False
      have m: "nat (int (length t) - st') < nat (int (length t) - st)"
        using True less.prems(1) by (simp add: st'_def)
      have st': "0 \<le> st'" using less.prems(1,3) by (simp add: st'_def)
      from less.hyps[OF m less.prems(1,2) st' i1 i2 i3 i4 i5] False unfold
      show ?thesis by simp
    qed
  qed
qed

text \<open>
  C1. For every text and every \<open>chunkSize > overlap \<ge> 0\<close>, \<open>createChunks\<close> returns, the
  \<open>index\<close> fields of the chunks are \<open>0 .. N-1\<close> in order, the \<open>start\<close> offsets increase
  strictly, and every chunk has \<open>start < end \<le> len(t)\<close>.
\<close>

theorem createChunks_ordered:
  assumes "0 \<le> overlap" and "overlap < chunkSize"
  shows "\<exists>chunks. createChunks t chunkSize overlap = Some chunks
           \<and> map index chunks = [0..<length chunks]
           \<and> sorted_wrt (<) (map start chunks)
           \<and> (\<forall>c\<in>set chunks. start c < endpos c \<and> endpos c \<le> int (length t))"
proof (cases "t = []")
  case True
  then show ?thesis by (simp add: createChunks_def)
next
  case False
  define t' where "t' = (if 1000000 < length t then substring t 0 1000000 else t)"
  have le: "length t' \<le> length t" by (simp add: t'_def length_substring_le)
  have cs: "0 < chunkSize" using assms by simp
  from chunk_loop_inv[of overlap chunkSize 0 "[]" 0 t', OF assms(2) cs]
  obtain r where r: "chunk_loop t' chunkSize overlap [] 0 0 = Some r"
    "map index r = [0..<length r]" "sorted_wrt (<) (map start r)"
    "\<forall>c\<in>set r. start c < endpos c \<and> endpos c \<le> int (length t')"
    by auto
  have "createChunks t chunkSize overlap = Some r"
    using False r(1) by (simp add: createChunks_def t'_def Let_def)
  moreover have "\<forall>c\<in>set r. start c < endpos c \<and> endpos c \<le> int (length t)"
    using r(4) le by auto
  ultimately show ?thesis using r(2,3) by blast
qed

theorem createChunks_ordered_witness:
  "(0::int) \<le> 5 \<and> (5::int) < 20
   \<and> createChunks (replicate 40 97) 20 5 \<noteq> Some []
   \<and> (\<exists>chunks. createChunks (replicate 40 97) 20 5 = Some chunks
           \<and> map index chunks = [0..<length chunks]
           \<and> sorted_wrt (<) (map start chunks)
           \<and> (\<forall>c\<in>set chunks. start c < endpos c \<and> endpos c \<le> int (length (replicate 40 (97::nat)))))"
proof -
  have ws: "\<not> is_ws 97" by (simp add: is_ws_def)
  have ne: "createChunks (replicate 40 97) 20 5 \<noteq> Some []"
    using ws
    by (simp add: createChunks_def chunk_loop.simps Let_def substring_replicate trim_no_ws)
  show ?thesis
    using ne createChunks_ordered [of 5 20 "replicate 40 97"] by simp
qed

text \<open>
  C2. With \<open>chunkSize = 500\<close> and \<open>overlap = 50\<close>, a text of 1200 code units whose three
  windows \<open>[0, 500)\<close>, \<open>[450, 950)\<close> and \<open>[900, 1200)\<close> each keep more than 10 code units
  after trimming (no short and no white-space-only region) gives exactly three chunks, at
  the offsets 0, 450 and 900.
\<close>

theorem createChunks_1200:
  assumes "length t = 1200"
    and "10 < length (trim (substring t 0 500))"
    and "10 < length (trim (substring t 450 950))"
    and "10 < length (trim (substring t 900 1200))"
  shows "\<exists>c0 c1 c2. createChunks t 500 50 = Some [c0, c1, c2]
           \<and> start c0 = 0 \<and> start c1 = 450 \<and> start c2 = 900"
proof -
  have ne: "t \<noteq> []" using assms(1) by auto
  show ?thesis
    using ne assms
    by (simp add: createChunks_def Let_def chunk_loop.simps)
qed

theorem createChunks_1200_witness:
  "length (replicate 1200 (97::nat)) = 1200
   \<and> 10 < length (trim (substring (replicate 1200 97) 0 500))
   \<and> 10 < length (trim (substring (replicate 1200 97) 450 950))
   \<and> 10 < length (trim (substring (replicate 1200 97) 900 1200))
   \<and> (\<exists>c0 c1 c2. createChunks (replicate 1200 97) 500 50 = Some [c0, c1, c2]
           \<and> start c0 = 0 \<and> start c1 = 450 \<and> start c2 = 900)"
proof -
  have ws: "\<not> is_ws 97" by (simp add: is_ws_def)
  have h: "10 < length (trim (substring (replicate 1200 97) 0 500))"
    "10 < length (trim (substring (replicate 1200 97) 450 950))"
    "10 < length (trim (substring (replicate 1200 97) 900 1200))"
    using ws by (simp_all add: substring_replicate trim_no_ws)
  show ?thesis
    using h createChunks_1200 [of "replicate 1200 97", OF _ h] by simp
qed

text \<open>
  On a text of 1011 letters \<open>a\<close> with \<open>chunkSize = 11\<close> and \<open>overlap = 10\<close> every window
  of the first 1001 offsets holds 11 letters, so every iteration pushes a chunk; the
  test \<open>chunks.length > 1000\<close> first holds after the push of chunk number 1001.
\<close>

lemma chunk_loop_fill:
  assumes "\<not> is_ws x" and "k \<le> 1000" and "length chunks = k" and "1011 \<le> n"
  shows "map_option length (chunk_loop (replicate n x) 11 10 chunks (int k) k) = Some 1001"
  using assms(2,3)
proof (induction "1000 - k" arbitrary: k chunks)
  case 0
  then have k: "k = 1000" by simp
  have c: "trim (substring (replicate n x) 1000 1011) = replicate 11 x"
    using assms(1,4) by (simp add: substring_replicate trim_no_ws)
  show ?case using assms(4) 0(3) c unfolding k
    by (subst chunk_loop.simps) (simp add: Let_def)
next
  case (Suc m)
  then have k: "k < 1000" by simp
  have c: "trim (substring (replicate n x) (int k) (int k + 11)) = replicate 11 x"
    using assms(1,4) k by (simp add: substring_replicate trim_no_ws)
  have m: "m = 1000 - Suc k" using Suc(2) by simp
  have "map_option length (chunk_loop (replicate n x) 11 10
      (chunks @ [\<lparr>content = replicate 11 x, start = int k, endpos = int k + 11, index = k\<rparr>])
      (int (Suc k)) (Suc k)) = Some 1001"
    using Suc(1)[OF m] k Suc(4) by simp
  then show ?case using assms(4) k Suc(4) c
    by (subst chunk_loop.simps) (simp add: Let_def min_def add.commute)
qed

text \<open>
  C3 (the claim: never more than 1000 chunks). The code returns 1001 chunks on a text of
  1011 letters \<open>a\<close> cut with \<open>chunkSize = 11\<close> and \<open>overlap = 10\<close>: the safety test
  \<open>chunks.length > 1000\<close> lets chunk number 1001 through before it breaks.
\<close>

theorem createChunks_1001_chunks:
  "map_option length (createChunks (replicate 1011 97) 11 10) = Some 1001"
proof -
  have "\<not> is_ws 97" by (simp add: is_ws_def)
  from chunk_loop_fill[OF this, of 0 "[]" 1011]
  show ?thesis by (simp add: createChunks_def)
qed

section \<open>Properties of the graph builder\<close>

lemma js_simps: "js [] = []" "js (c # cs) = of_char c # js cs"
  by (simp_all add: js_def)

text \<open>
  C4. Two chunks, one whose extraction returns \<open>{Alpha, concept, 8}\<close> and one whose
  extraction returns \<open>{alpha, concept, 6}\<close>: whichever call resolves first, the merged map
  has exactly one entry, under the key \<open>alpha_concept\<close>, with \<open>count = 2\<close> and
  \<open>relevance = 7\<close>.
\<close>

theorem merged_alpha:
  assumes "ai 0 (content c0) =
             Inr [\<lparr>ent_name = js ''Alpha'', ent_type = js ''concept'', ent_relevance = 8\<rparr>]"
    and "ai 1 (content c1) =
             Inr [\<lparr>ent_name = js ''alpha'', ent_type = js ''concept'', ent_relevance = 6\<rparr>]"
    and ord: "sched 0 = [0, 1] \<or> sched 0 = [1, 0]"
  shows "\<exists>e. extractEntitiesMap ai sched [c0, c1] = [(js ''alpha_concept'', e)]
           \<and> m_count e = 2 \<and> m_relevance e = 7"
  using ord
proof
  assume "sched 0 = [0, 1]"
  then show ?thesis using assms(1,2)
    by (simp add: extractEntitiesMap_def processBatch_def mergeEntity_def entityKey_def
        minEntityRelevance_def toLowerCase_def lower_unit_def js_simps set_add_def)
next
  assume "sched 0 = [1, 0]"
  then show ?thesis using assms(1,2)
    by (simp add: extractEntitiesMap_def processBatch_def mergeEntity_def entityKey_def
        minEntityRelevance_def toLowerCase_def lower_unit_def js_simps set_add_def)
qed

theorem merged_alpha_witness:
  "demo_ai 0 (content (demo_chunk ''x'')) =
      Inr [\<lparr>ent_name = js ''Alpha'', ent_type = js ''concept'', ent_relevance = 8\<rparr>]
   \<and> demo_ai 1 (content (demo_chunk ''y'')) =
      Inr [\<lparr>ent_name = js ''alpha'', ent_type = js ''concept'', ent_relevance = 6\<rparr>]
   \<and> (\<exists>e. extractEntitiesMap demo_ai (\<lambda>i. [1, 0]) [demo_chunk ''x'', demo_chunk ''y'']
            = [(js ''alpha_concept'', e)] \<and> m_count e = 2 \<and> m_relevance e = 7)"
  using merged_alpha [of demo_ai "demo_chunk ''x''" "demo_chunk ''y''" "\<lambda>i. [1, 0]"]
  by (simp add: demo_ai_def)

lemma edgeKey_same_fst: "edgeKey a b = edgeKey a c \<longleftrightarrow> b = c"
  by (simp add: edgeKey_def)

lemma edgeKey_same_snd: "edgeKey a c = edgeKey b c \<longleftrightarrow> a = b"
  by (simp add: edgeKey_def)

text \<open>The co-occurrence counters of the scenario, for each place of the chunk that holds
  B and C among the three chunks.\<close>

lemma valid_scenario:
  assumes ids: "n_id A \<noteq> n_id B" "n_id A \<noteq> n_id C" "n_id B \<noteq> n_id C"
    and keys: "edgeKey (n_id A) (n_id B) \<noteq> edgeKey (n_id B) (n_id C)"
    and arr: "map (chunkEntities [A, B, C]) [c0, c1, c2] = [[A, B], [A, B], [B, C]]
            \<or> map (chunkEntities [A, B, C]) [c0, c1, c2] = [[A, B], [B, C], [A, B]]
            \<or> map (chunkEntities [A, B, C]) [c0, c1, c2] = [[B, C], [A, B], [A, B]]"
  shows "\<exists>cs. validEdges [A, B, C] [c0, c1, c2] =
           [\<lparr>co_source = n_id A, co_target = n_id B, co_weight = 2, co_chunks = cs\<rparr>]"
  using arr ids keys keys[symmetric]
  by (auto simp: validEdges_def countPair_def minCooccurrence_def Let_def
        edgeKey_same_fst edgeKey_same_snd)

lemma demo_entities:
  "chunkEntities demo_nodes (demo_chunk ''alpha meets beta'')
     = [demo_node ''1'' ''Alpha'', demo_node ''2'' ''Beta'']"
  "chunkEntities demo_nodes (demo_chunk ''Beta and Alpha'')
     = [demo_node ''1'' ''Alpha'', demo_node ''2'' ''Beta'']"
  "chunkEntities demo_nodes (demo_chunk ''beta with gamma'')
     = [demo_node ''2'' ''Beta'', demo_node ''3'' ''Gamma'']"
  by (simp_all add: demo_nodes_def demo_chunk_def demo_node_def chunkEntities_def
      toLowerCase_def lower_unit_def js_simps)

lemma demo_valid:
  "validEdges demo_nodes demo_chunks =
     [\<lparr>co_source = js ''1'', co_target = js ''2'', co_weight = 2, co_chunks = [0, 1]\<rparr>]"
  by (simp add: validEdges_def demo_chunks_def demo_entities)
     (simp add: countPair_def edgeKey_def minCooccurrence_def Let_def demo_node_def js_simps)

text \<open>
  C5 (the claim: exactly the A-B edge, no A-C or B-C edge). Nodes Alpha, Beta, Gamma;
  Alpha and Beta co-occur in two chunks, Beta and Gamma in one; the language model
  proposes a relationship between Alpha and Gamma. The co-occurrence pass stores the
  Alpha-Beta edge with weight 2; since that is fewer than 5 edges, the semantic fallback
  runs and appends an Alpha-Gamma edge.
\<close>

theorem semantic_edge_counterexample:
  "map (\<lambda>e. (e_source e, e_target e, e_weight e, e_ai_generated e))
      (fst (analyzeRelationships demo_store demo_llm 0 demo_chunks demo_nodes))
    = [(js ''1'', js ''2'', 2, False), (js ''1'', js ''3'', 4 / 5, True)]"
  by (simp add: analyzeRelationships_def demo_valid)
     (simp add: demo_nodes_def demo_node_def Let_def createSemanticRelationships_def
       demo_llm_def demo_store_def js_simps)

text \<open>
  C5 as amended. Three nodes A, B, C with different identifiers (and edge keys that do
  not collide), three chunks of which two hold A and B and one holds B and C, and a store
  that accepts the insert of the A-B edge. The co-occurrence pass retains exactly the
  pair A-B with weight 2; the result of \<open>analyzeRelationships\<close> is that edge followed by
  the edges of the semantic fallback; and it is exactly that edge when the language model
  proposes nothing.
\<close>

theorem cooccurrence_scenario:
  assumes ids: "n_id A \<noteq> n_id B" "n_id A \<noteq> n_id C" "n_id B \<noteq> n_id C"
    and keys: "edgeKey (n_id A) (n_id B) \<noteq> edgeKey (n_id B) (n_id C)"
    and arr: "map (chunkEntities [A, B, C]) [c0, c1, c2] = [[A, B], [A, B], [B, C]]
            \<or> map (chunkEntities [A, B, C]) [c0, c1, c2] = [[A, B], [B, C], [A, B]]
            \<or> map (chunkEntities [A, B, C]) [c0, c1, c2] = [[B, C], [A, B], [A, B]]"
    and ins: "createGraphEdge st db (n_id A, n_id B, determineRelationship A B, 2)
                = (Inr (Some rid), db')"
  shows "map (\<lambda>e. (co_source e, co_target e, co_weight e)) (validEdges [A, B, C] [c0, c1, c2])
           = [(n_id A, n_id B, 2)]
       \<and> fst (analyzeRelationships st llm db [c0, c1, c2] [A, B, C])
           = abEdge A B rid # fst (createSemanticRelationships st llm db' [A, B, C])
       \<and> ((\<exists>err. llm [A, B, C] = Inl err) \<or> llm [A, B, C] = Inr []
            \<longrightarrow> fst (analyzeRelationships st llm db [c0, c1, c2] [A, B, C]) = [abEdge A B rid])"
proof -
  from valid_scenario[OF ids keys arr] obtain cs where
    v: "validEdges [A, B, C] [c0, c1, c2] =
           [\<lparr>co_source = n_id A, co_target = n_id B, co_weight = 2, co_chunks = cs\<rparr>]"
    by blast
  have p: "persistEdges st db [A, B, C] (validEdges [A, B, C] [c0, c1, c2])
             = ([abEdge A B rid], db')"
    using ids ins by (simp add: v abEdge_def Let_def)
  have a: "analyzeRelationships st llm db [c0, c1, c2] [A, B, C]
        = (abEdge A B rid # fst (createSemanticRelationships st llm db' [A, B, C]),
           snd (createSemanticRelationships st llm db' [A, B, C]))"
    by (simp add: analyzeRelationships_def p split: prod.splits)
  have s: "(\<exists>err. llm [A, B, C] = Inl err) \<or> llm [A, B, C] = Inr []
      \<Longrightarrow> fst (createSemanticRelationships st llm db' [A, B, C]) = []"
    by (auto simp: createSemanticRelationships_def)
  show ?thesis using v a s by simp
qed

theorem cooccurrence_scenario_witness:
  "n_id (demo_node ''1'' ''Alpha'') \<noteq> n_id (demo_node ''2'' ''Beta'')
   \<and> map (chunkEntities demo_nodes) demo_chunks
       = [[demo_node ''1'' ''Alpha'', demo_node ''2'' ''Beta''],
          [demo_node ''1'' ''Alpha'', demo_node ''2'' ''Beta''],
          [demo_node ''2'' ''Beta'', demo_node ''3'' ''Gamma'']]
   \<and> fst (analyzeRelationships demo_store (\<lambda>ns. Inr []) 0 demo_chunks demo_nodes)
       = [abEdge (demo_node ''1'' ''Alpha'') (demo_node ''2'' ''Beta'') (js ''0'')]"
proof -
  have ids: "n_id (demo_node ''1'' ''Alpha'') \<noteq> n_id (demo_node ''2'' ''Beta'')"
    "n_id (demo_node ''1'' ''Alpha'') \<noteq> n_id (demo_node ''3'' ''Gamma'')"
    "n_id (demo_node ''2'' ''Beta'') \<noteq> n_id (demo_node ''3'' ''Gamma'')"
    by (simp_all add: demo_node_def js_simps)
  have keys: "edgeKey (n_id (demo_node ''1'' ''Alpha'')) (n_id (demo_node ''2'' ''Beta''))
      \<noteq> edgeKey (n_id (demo_node ''2'' ''Beta'')) (n_id (demo_node ''3'' ''Gamma''))"
    by (simp add: demo_node_def edgeKey_def js_simps)
  have arr: "map (chunkEntities
         [demo_node ''1'' ''Alpha'', demo_node ''2'' ''Beta'', demo_node ''3'' ''Gamma''])
       [demo_chunk ''alpha meets beta'', demo_chunk ''Beta and Alpha'',
        demo_chunk ''beta with gamma'']
     = [[demo_node ''1'' ''Alpha'', demo_node ''2'' ''Beta''],
        [demo_node ''1'' ''Alpha'', demo_node ''2'' ''Beta''],
        [demo_node ''2'' ''Beta'', demo_node ''3'' ''Gamma'']]"
    using demo_entities by (simp add: demo_nodes_def)
  have ins: "createGraphEdge demo_store 0
      (n_id (demo_node ''1'' ''Alpha''), n_id (demo_node ''2'' ''Beta''),
       determineRelationship (demo_node ''1'' ''Alpha'') (demo_node ''2'' ''Beta''), 2)
      = (Inr (Some (js ''0'')), 1)"
    by (simp add: demo_store_def js_simps)
  have "fst (analyzeRelationships demo_store (\<lambda>ns. Inr []) 0
       [demo_chunk ''alpha meets beta'', demo_chunk ''Beta and Alpha'',
        demo_chunk ''beta with gamma'']
       [demo_node ''1'' ''Alpha'', demo_node ''2'' ''Beta'', demo_node ''3'' ''Gamma''])
      = [abEdge (demo_node ''1'' ''Alpha'') (demo_node ''2'' ''Beta'') (js ''0'')]"
    using cooccurrence_scenario[OF ids keys disjI1[OF arr] ins, of "\<lambda>ns. Inr []"] by blast
  then show ?thesis using ids(1) arr by (simp add: demo_nodes_def demo_chunks_def)
qed

text \<open>
  C8. \<open>buildGraphFromChunks\<close> returns an object on every input (it is a total function
  into \<open>graph_data\<close>: no error leaves it), and when an error escapes one of its three
  stages the object has empty \<open>nodes\<close> and \<open>edges\<close> and carries the message of the error.
\<close>

theorem buildGraph_catches:
  assumes "chunks \<noteq> []"
    and "st_extract st chunks = Inl err
       \<or> (\<exists>entities db1. st_extract st chunks = Inr entities \<and> entities \<noteq> []
            \<and> st_nodes st db entities documentId = (Inl err, db1))
       \<or> (\<exists>entities nodes db1 db2. st_extract st chunks = Inr entities \<and> entities \<noteq> []
            \<and> st_nodes st db entities documentId = (Inr nodes, db1) \<and> nodes \<noteq> []
            \<and> st_edges st db1 chunks nodes documentId = (Inl err, db2))"
  shows "fst (buildGraphFromChunks st db chunks documentId)
           = \<lparr>g_nodes = [], g_edges = [], g_summary = None, g_error = Some (message err)\<rparr>"
  using assms
  by (auto simp: buildGraphFromChunks_def buildGraphTry_def)

theorem buildGraph_catches_witness:
  "demo_chunks \<noteq> []
   \<and> st_extract ((memoryGraph_stages demo_ai (\<lambda>i. [0, 1]) demo_store demo_llm)
        \<lparr>st_extract := (\<lambda>cs. Inl (JsError (js ''rate limit'')))\<rparr>) demo_chunks
       = Inl (JsError (js ''rate limit''))
   \<and> fst (buildGraphFromChunks ((memoryGraph_stages demo_ai (\<lambda>i. [0, 1]) demo_store demo_llm)
        \<lparr>st_extract := (\<lambda>cs. Inl (JsError (js ''rate limit'')))\<rparr>) 0 demo_chunks (js ''doc''))
       = \<lparr>g_nodes = [], g_edges = [], g_summary = None, g_error = Some (js ''rate limit'')\<rparr>"
proof -
  have ne: "demo_chunks \<noteq> []" by (simp add: demo_chunks_def)
  have ex: "st_extract ((memoryGraph_stages demo_ai (\<lambda>i. [0, 1]) demo_store demo_llm)
        \<lparr>st_extract := (\<lambda>cs. Inl (JsError (js ''rate limit'')))\<rparr>) demo_chunks
       = Inl (JsError (js ''rate limit''))" by simp
  show ?thesis
    using ne ex buildGraph_catches [OF ne disjI1 [OF ex], of 0 "js ''doc''"] by simp
qed

section \<open>Properties of the regular expressions\<close>





section \<open>Properties of the OCR detector\<close>






















section \<open>Properties of the matcher and of the cleaning phases\<close>
























lemma strip_ends_trim: "strip_ends s = trim s"
  by (simp add: strip_ends_def trim_def)

























lemma no_double_Nil: "no_double []"
  by (simp add: no_double_def)

lemma no_double_Cons:
  assumes "no_double xs" and "a \<noteq> 32 \<or> xs = [] \<or> hd xs \<noteq> 32"
  shows "no_double (a # xs)"
  unfolding no_double_def
proof
  assume "\<exists>u v. a # xs = u @ 32 # 32 # v"
  then obtain u v where e: "a # xs = u @ 32 # 32 # v" by blast
  show False
  proof (cases u)
    case Nil
    then show ?thesis using e assms(2) by auto
  next
    case (Cons b u')
    then have "xs = u' @ 32 # 32 # v" using e by simp
    then show ?thesis using assms(1) unfolding no_double_def by blast
  qed
qed

lemma no_double_suffix: "no_double (p @ s) \<Longrightarrow> no_double s"
  unfolding no_double_def by (metis append.assoc)

lemma no_double_rev: "no_double s \<Longrightarrow> no_double (rev s)"
  unfolding no_double_def
proof
  assume n: "\<not> (\<exists>u v. s = u @ 32 # 32 # v)" and "\<exists>u v. rev s = u @ 32 # 32 # v"
  then obtain u v where "rev s = u @ 32 # 32 # v" by blast
  then have "rev (rev s) = rev (u @ 32 # 32 # v)" by simp
  then have "s = rev v @ 32 # 32 # rev u" by simp
  then show False using n by blast
qed

lemma no_double_dropWhile: "no_double s \<Longrightarrow> no_double (dropWhile P s)"
  using no_double_suffix[of "takeWhile P s" "dropWhile P s"] by simp

lemma no_double_trim: "no_double s \<Longrightarrow> no_double (trim s)"
  by (simp add: trim_def no_double_rev no_double_dropWhile)

lemma set_trim: "set (trim s) \<subseteq> set s"
proof -
  have "set (dropWhile is_ws (rev (dropWhile is_ws s))) \<subseteq> set (rev (dropWhile is_ws s))"
    by (rule set_dropWhileD[THEN subsetI])
  also have "\<dots> \<subseteq> set s" using set_dropWhileD[of _ is_ws s] by auto
  finally show ?thesis by (simp add: trim_def)
qed

lemma dropWhile_hd_not: "dropWhile P s \<noteq> [] \<Longrightarrow> \<not> P (hd (dropWhile P s))"
  by (simp add: hd_dropWhile)

lemma trim_ends: "trim s \<noteq> [] \<Longrightarrow> \<not> is_ws (hd (trim s)) \<and> \<not> is_ws (last (trim s))"
proof -
  assume ne: "trim s \<noteq> []"
  define a where "a = dropWhile is_ws s"
  define b where "b = dropWhile is_ws (rev a)"
  have t: "trim s = rev b" by (simp add: trim_def a_def b_def)
  have bne: "b \<noteq> []" using ne t by simp
  have hb: "\<not> is_ws (hd b)" using bne unfolding b_def by (rule dropWhile_hd_not)
  have l: "\<not> is_ws (last (trim s))" using hb bne by (simp add: t last_rev)
  have "last b = last (rev a)" using bne unfolding b_def
    by (metis append_take_drop_id last_appendR takeWhile_dropWhile_id)
  then have "last b = hd a" using bne b_def by (metis dropWhile.simps(1) hd_rev rev_rev_ident)
  moreover have "a \<noteq> []" using bne b_def by auto
  ultimately have "\<not> is_ws (last b)" unfolding a_def using dropWhile_hd_not[of is_ws s] by simp
  then have "\<not> is_ws (hd (trim s))" using bne by (simp add: t hd_rev)
  then show ?thesis using l by simp
qed

lemma runs_from_norm:
  "no_double (runs_from is_ws [32] inside x)
   \<and> (inside \<longrightarrow> runs_from is_ws [32] inside x = [] \<or> hd (runs_from is_ws [32] inside x) \<noteq> 32)
   \<and> (\<forall>c\<in>set (runs_from is_ws [32] inside x). is_ws c \<longrightarrow> c = 32)"
proof (induction x arbitrary: inside)
  case Nil
  then show ?case by (simp add: no_double_Nil)
next
  case (Cons a x)
  note ihT = Cons.IH[of True] and ihF = Cons.IH[of False]
  show ?case
  proof (cases "is_ws a")
    case True
    show ?thesis
    proof (cases inside)
      case True
      then show ?thesis using \<open>is_ws a\<close> ihT by simp
    next
      case False
      have "no_double (32 # runs_from is_ws [32] True x)"
        by (rule no_double_Cons) (use ihT in auto)
      then show ?thesis using \<open>is_ws a\<close> False ihT by simp
    qed
  next
    case False
    then have "a \<noteq> 32" by (auto simp: is_ws_def)
    then have "no_double (a # runs_from is_ws [32] False x)"
      by (intro no_double_Cons) (use ihF in auto)
    then show ?thesis using False \<open>a \<noteq> 32\<close> ihF by simp
  qed
qed

lemma finalCleanup_norm:
  "no_double (finalCleanup x) \<and> (\<forall>c\<in>set (finalCleanup x). is_ws c \<longrightarrow> c = 32)
   \<and> (finalCleanup x \<noteq> [] \<longrightarrow> \<not> is_ws (hd (finalCleanup x)) \<and> \<not> is_ws (last (finalCleanup x)))"
proof -
  define y where "y = replace_runs is_ws (js '' '') x"
  have y: "no_double y" "\<forall>c\<in>set y. is_ws c \<longrightarrow> c = 32"
    using runs_from_norm[of False x] by (simp_all add: y_def replace_runs_def js_def)
  have f: "finalCleanup x = trim (trim y)" by (simp add: finalCleanup_def strip_ends_trim y_def)
  have 1: "no_double (finalCleanup x)" unfolding f by (intro no_double_trim y(1))
  have 2: "\<forall>c\<in>set (finalCleanup x). is_ws c \<longrightarrow> c = 32"
    unfolding f using y(2) set_trim[of "trim y"] set_trim[of y] by blast
  have 3: "finalCleanup x \<noteq> [] \<longrightarrow> \<not> is_ws (hd (finalCleanup x)) \<and> \<not> is_ws (last (finalCleanup x))"
    unfolding f using trim_ends[of "trim y"] by blast
  show ?thesis using 1 2 3 by blast
qed

lemmas cls_defs = is_ws_def is_lt_def is_digit_def is_upper_def is_lower_def is_alpha_def is_alnum_def
  is_word_def any_char_def non_ws_def ch_def ci_def one_of_def is_control_def is_zero_width_def sp_tab_def
  lower_unit_def

lemmas rx_defs = rx_at_def replace_all_def one_def star_def plus_def lit_def lit_ci_def at_bol_def at_eol_def
  expand_def

lemmas hdr_defs = cleanPageHeadersFooters_def headerPatterns_def pageNumberPattern_def pageOfPattern_def
      confidentialPattern_def draftPattern_def copyrightSignPattern_def copyrightPattern_def datePattern_def

lemmas phase4_defs = ensureSentenceEndings_def removeDuplicateLines_def finalCleanup_def strip_ends_def
  trim_def replace_runs_def toLowerCase_def

lemma dup_pass1: "clean dup_sample default_options = js ''Hello world. Bye''"
proof -
  have 1: "removeNullCharacters dup_sample = dup_sample"
    by (simp add: dup_sample_def removeNullCharacters_def replace_each_def js_simps cls_defs)
  have 2: "normalizeWhitespace dup_sample = dup_sample"
    by (simp add: dup_sample_def normalizeWhitespace_def replace_each_def replace_runs_def js_simps
        cls_defs rx_defs trim_def)
  have 3: "cleanPageHeadersFooters dup_sample = dup_sample"
    by (simp add: dup_sample_def hdr_defs js_simps cls_defs rx_defs)
  have 4: "\<not> detectOcrIssues dup_sample"
    by (simp add: dup_sample_def detectOcrIssues_def js_def)
  have 5: "finalCleanup (removeDuplicateLines (ensureSentenceEndings dup_sample)) = js ''Hello world. Bye''"
    by (simp add: dup_sample_def phase4_defs js_simps cls_defs Let_def)
  have ne: "dup_sample \<noteq> []" by (simp add: dup_sample_def)
  show ?thesis using ne 4 by (simp add: clean_def Let_def default_options_def 1 2 3 5)
qed
































section \<open>Properties of the text cleaner\<close>

text \<open>What \<open>finalCleanup\<close> leaves, whatever the phases before it did.\<close>

lemma clean_norm:
  "no_double (clean s opts) \<and> (\<forall>c\<in>set (clean s opts). is_ws c \<longrightarrow> c = 32)
   \<and> (clean s opts \<noteq> [] \<longrightarrow> \<not> is_ws (hd (clean s opts)) \<and> \<not> is_ws (last (clean s opts)))"
proof (cases "s = []")
  case True
  then show ?thesis by (simp add: clean_def no_double_Nil)
next
  case False
  then obtain x where c: "clean s opts = finalCleanup x"
    by (simp add: clean_def Let_def)
  show ?thesis unfolding c by (rule finalCleanup_norm)
qed

text \<open>
  C10. For every string and every option record, the text that \<open>clean\<close> returns holds no
  line feed and no tab, its only white-space code unit is the space, and it has no two
  consecutive spaces.
\<close>

theorem clean_single_spaced:
  "10 \<notin> set (clean s opts) \<and> 9 \<notin> set (clean s opts)
   \<and> set (filter is_ws (clean s opts)) \<subseteq> {32} \<and> no_double (clean s opts)"
proof -
  have w: "is_ws 10" "is_ws 9" by (simp_all add: is_ws_def)
  show ?thesis using clean_norm[of s opts] w by fastforce
qed

theorem clean_single_spaced_witness:
  "clean dup_sample default_options = js ''Hello world. Bye''
   \<and> 10 \<in> set dup_sample
   \<and> 10 \<notin> set (clean dup_sample default_options) \<and> 9 \<notin> set (clean dup_sample default_options)
   \<and> set (filter is_ws (clean dup_sample default_options)) \<subseteq> {32}
   \<and> no_double (clean dup_sample default_options)"
proof -
  have "10 \<in> set dup_sample" by (simp add: dup_sample_def)
  then show ?thesis
    using clean_single_spaced [of dup_sample default_options] dup_pass1 by simp
qed


























section \<open>Properties of the PDF parser\<close>

text \<open>
  C9. \<open>parse\<close> returns a result on every input (it is a total function into
  \<open>extraction\<close>: every error of the \<open>try\<close> block is caught, and the \<open>catch\<close> block calls
  nothing that throws). When direct extraction throws or returns no accepted text, the OCR
  stage fails (no image, an error thrown by the conversion or by the recognition, or too
  little text) and the scraping of the buffer gives at most 100 characters, the result has
  \<open>success = true\<close>, the fixed guidance message as text, the quality marker
  \<open>needs_conversion\<close> and the message of the error that ended the \<open>try\<close> block.
\<close>

theorem parse_guidance:
  assumes "extractTextPDFs st buffer = Inl err
       \<or> (\<exists>textResult. extractTextPDFs st buffer = Inr textResult
             \<and> \<not> (r_success textResult \<and> 200 < length (r_text textResult))
             \<and> (convertPDFToImages st buffer = Inl err
                \<or> (convertPDFToImages st buffer = Inr []
                    \<and> err = JsError (js ''Could not convert PDF to images''))
                \<or> (\<exists>images. convertPDFToImages st buffer = Inr images \<and> images \<noteq> []
                    \<and> (processImagesWithOCR st images = Inl err
                       \<or> (\<exists>ocrResult. processImagesWithOCR st images = Inr ocrResult
                            \<and> \<not> (r_success ocrResult \<and> 100 < length (r_text ocrResult))
                            \<and> err = JsError (js ''OCR extracted too little text''))))))"
    and "length (extractAnyTextFromBuffer st buffer) \<le> 100"
  shows "parse st buffer = guidance err
       \<and> r_success (parse st buffer) \<and> r_text (parse st buffer) = getHelpMessage
       \<and> map_option md_quality (r_metadata (parse st buffer)) = Some (js ''needs_conversion'')
       \<and> map_option md_error (r_metadata (parse st buffer)) = Some (Some (message err))"
proof -
  have "parseTry st buffer = Inl err"
    using assms(1) by (auto simp: parseTry_def)
  then have "parse st buffer = guidance err"
    using assms(2) by (simp add: parse_def Let_def)
  then show ?thesis by (simp add: guidance_def)
qed

theorem parse_guidance_witness:
  "extractTextPDFs (pdfParser_stages failing_libs) [37, 80, 68, 70]
      = Inr \<lparr>r_success = False, r_text = [], r_metadata = None\<rparr>
   \<and> convertPDFToImages (pdfParser_stages failing_libs) [37, 80, 68, 70] = Inr []
   \<and> length (extractAnyTextFromBuffer (pdfParser_stages failing_libs) [37, 80, 68, 70]) \<le> 100
   \<and> parse (pdfParser_stages failing_libs) [37, 80, 68, 70]
      = guidance (JsError (js ''Could not convert PDF to images''))
   \<and> r_text (parse (pdfParser_stages failing_libs) [37, 80, 68, 70]) = getHelpMessage"
proof -
  have 1: "extractTextPDFs (pdfParser_stages failing_libs) [37, 80, 68, 70]
      = Inr \<lparr>r_success = False, r_text = [], r_metadata = None\<rparr>"
    by (simp add: pdfParser_stages_def failing_libs_def extractTextPDFs_impl_def)
  have 2: "convertPDFToImages (pdfParser_stages failing_libs) [37, 80, 68, 70] = Inr []"
    by (simp add: pdfParser_stages_def failing_libs_def convertPDFToImages_impl_def)
  have 3: "length (extractAnyTextFromBuffer (pdfParser_stages failing_libs) [37, 80, 68, 70])
             \<le> 100"
    by (simp add: pdfParser_stages_def failing_libs_def)
  have 4: "extractTextPDFs (pdfParser_stages failing_libs) [37, 80, 68, 70]
         = Inl (JsError (js ''Could not convert PDF to images''))
       \<or> (\<exists>textResult. extractTextPDFs (pdfParser_stages failing_libs) [37, 80, 68, 70]
               = Inr textResult
             \<and> \<not> (r_success textResult \<and> 200 < length (r_text textResult))
             \<and> (convertPDFToImages (pdfParser_stages failing_libs) [37, 80, 68, 70]
                   = Inl (JsError (js ''Could not convert PDF to images''))
                \<or> (convertPDFToImages (pdfParser_stages failing_libs) [37, 80, 68, 70] = Inr []
                    \<and> JsError (js ''Could not convert PDF to images'')
                        = JsError (js ''Could not convert PDF to images''))
                \<or> (\<exists>images. convertPDFToImages (pdfParser_stages failing_libs) [37, 80, 68, 70]
                        = Inr images \<and> images \<noteq> []
                    \<and> (processImagesWithOCR (pdfParser_stages failing_libs) images
                          = Inl (JsError (js ''Could not convert PDF to images''))
                       \<or> (\<exists>ocrResult. processImagesWithOCR (pdfParser_stages failing_libs) images
                              = Inr ocrResult
                            \<and> \<not> (r_success ocrResult \<and> 100 < length (r_text ocrResult))
                            \<and> JsError (js ''Could not convert PDF to images'')
                                = JsError (js ''OCR extracted too little text''))))))"
    using 1 2 by simp
  show ?thesis
    using 1 2 3 parse_guidance [OF 4 3] by (simp add: guidance_def)
qed

end
